theory Spec2Isabelle
  imports Complex_Main "HOL-Library.AList" "HOL-Library.Log_Nat"
begin

section \<open>Python values and exceptions\<close>

text \<open>
  The exceptions that the modelled functions of \<^verbatim>\<open>backend/main.py\<close> can raise.
  A function that can raise returns \<open>error + 'a\<close>, with \<open>Inl\<close> for the exception.
  \<open>ConnectionError\<close> stands for any exception of a network client
  (connection, timeout, status, body decoding), \<open>OperationalError\<close> for any
  exception of the storage engine at a commit, \<open>HTTP404\<close> for
  \<^verbatim>\<open>HTTPException(status_code=404)\<close>.
\<close>

datatype error =
    ZeroDivisionError
  | OverflowError
  | TypeError
  | AttributeError
  | NameError
  | JSONDecodeError
  | ValidationError
  | ValueError
  | IndexError
  | KeyError
  | ConnectionError
  | OperationalError
  | HTTP404

definition andthen :: "error + 'a \<Rightarrow> ('a \<Rightarrow> error + 'b) \<Rightarrow> error + 'b" where
  "andthen m f = (case m of Inl e \<Rightarrow> Inl e | Inr x \<Rightarrow> f x)"

section \<open>Floating point\<close>

text \<open>
  A Python float is an IEEE 754 double: a finite value (a rational that a double
  represents), an infinity or a NaN. The two zeros are one value here (they
  compare equal in Python). \<open>fl\<close> rounds an exact result to the nearest double,
  ties to even: the quantum is \<open>2 ^ (e - 52)\<close> for the binary exponent \<open>e\<close> of
  the value, never below -1022 (subnormal numbers), and a result that rounds to
  \<open>2 ^ 1024\<close> or more in magnitude is an infinity.
\<close>

datatype pyfloat = Finite rat | PosInf | NegInf | NaN

definition pow2 :: "int \<Rightarrow> rat" where
  "pow2 e = (if 0 \<le> e then 2 ^ nat e else 1 / 2 ^ nat (- e))"

definition ilog2 :: "rat \<Rightarrow> int" where
  "ilog2 y = (if 1 \<le> y then bitlen \<lfloor>y\<rfloor> - 1 else - bitlen (\<lceil>1 / y\<rceil> - 1))"

definition round_half_even :: "rat \<Rightarrow> int" where
  "round_half_even y =
     (let f = \<lfloor>y\<rfloor>; r = y - of_int f
      in if r < 1 / 2 then f
         else if 1 / 2 < r then f + 1
         else if even f then f else f + 1)"

definition round_double :: "rat \<Rightarrow> rat" where
  "round_double x =
     (if x = 0 then 0
      else let q = pow2 (max (ilog2 \<bar>x\<bar>) (- 1022) - 52)
           in sgn x * of_int (round_half_even (\<bar>x\<bar> / q)) * q)"

definition fl :: "rat \<Rightarrow> pyfloat" where
  "fl x =
     (let r = round_double x
      in if 2 ^ 1024 \<le> \<lfloor>\<bar>r\<bar>\<rfloor> then (if 0 < x then PosInf else NegInf) else Finite r)"

fun fmul :: "pyfloat \<Rightarrow> pyfloat \<Rightarrow> pyfloat" where
  "fmul (Finite a) (Finite b) = fl (a * b)"
| "fmul NaN y = NaN"
| "fmul x NaN = NaN"
| "fmul (Finite a) y =
     (if a = 0 then NaN else if (0 < a) = (y = PosInf) then PosInf else NegInf)"
| "fmul x (Finite b) =
     (if b = 0 then NaN else if (0 < b) = (x = PosInf) then PosInf else NegInf)"
| "fmul x y = (if x = y then PosInf else NegInf)"

fun fdiv :: "pyfloat \<Rightarrow> pyfloat \<Rightarrow> pyfloat" where
  "fdiv (Finite a) (Finite b) = fl (a / b)"
| "fdiv NaN y = NaN"
| "fdiv x NaN = NaN"
| "fdiv (Finite a) y = Finite 0"
| "fdiv x (Finite b) = (if (0 < b) = (x = PosInf) then PosInf else NegInf)"
| "fdiv x y = NaN"

text \<open>
  \<^verbatim>\<open>float(i)\<close> of an integer, as the arithmetic operators apply it to an integer
  operand: the nearest double, or \<^verbatim>\<open>OverflowError\<close> when that is out of range.
  \<open>mul_int\<close> is \<^verbatim>\<open>a * i\<close> and \<open>truediv\<close> is \<^verbatim>\<open>a / i\<close> for a float \<open>a\<close> and an
  integer \<open>i\<close>; the division raises on a zero divisor.
\<close>

definition int_to_float :: "int \<Rightarrow> error + pyfloat" where
  "int_to_float i =
     (case fl (of_int i) of Finite r \<Rightarrow> Inr (Finite r) | _ \<Rightarrow> Inl OverflowError)"

definition mul_int :: "pyfloat \<Rightarrow> int \<Rightarrow> error + pyfloat" where
  "mul_int a i = andthen (int_to_float i) (\<lambda>b. Inr (fmul a b))"

definition truediv :: "pyfloat \<Rightarrow> int \<Rightarrow> error + pyfloat" where
  "truediv a i =
     andthen (int_to_float i) (\<lambda>b.
       if b = Finite 0 then Inl ZeroDivisionError else Inr (fdiv a b))"

section \<open>Budget estimator\<close>

text \<open>
  \<^verbatim>\<open>
  def estimate_budget(days, travelers, level):
      base_per_day = {"low": 40.0, "medium": 80.0, "high": 150.0}.get(level, 80.0)
      total = base_per_day * days * travelers
      return total, total / max(travelers, 1)
  \<close>
\<close>

definition estimate_budget :: "int \<Rightarrow> int \<Rightarrow> string \<Rightarrow> error + (pyfloat \<times> pyfloat)" where
  "estimate_budget days travelers level =
     (let base_per_day =
            (case map_of [(''low'', Finite 40), (''medium'', Finite 80),
                          (''high'', Finite 150)] level of
               Some r \<Rightarrow> r
             | None \<Rightarrow> Finite 80)
      in andthen (mul_int base_per_day days) (\<lambda>per_traveler.
         andthen (mul_int per_traveler travelers) (\<lambda>total.
         andthen (truediv total (max travelers 1)) (\<lambda>per_person.
           Inr (total, per_person)))))"

section \<open>Decoded values\<close>

fun map_raising :: "('a \<Rightarrow> error + 'b) \<Rightarrow> 'a list \<Rightarrow> error + 'b list" where
  "map_raising f [] = Inr []"
| "map_raising f (x # xs) =
     (case f x of
        Inl e \<Rightarrow> Inl e
      | Inr y \<Rightarrow> (case map_raising f xs of Inl e \<Rightarrow> Inl e | Inr ys \<Rightarrow> Inr (y # ys)))"

text \<open>
  The values that \<^verbatim>\<open>json.loads\<close> and the providers' clients hand to the program:
  \<^verbatim>\<open>None\<close>, \<^verbatim>\<open>bool\<close>, \<^verbatim>\<open>int\<close>, \<^verbatim>\<open>float\<close>, \<^verbatim>\<open>str\<close>, \<^verbatim>\<open>list\<close> and
  \<^verbatim>\<open>dict\<close> with string keys (an association list in insertion order, keys distinct).
\<close>

datatype json =
    JNull
  | JBool bool
  | JInt int
  | JFloat pyfloat
  | JStr string
  | JArr "json list"
  | JObj "(string \<times> json) list"

text \<open>Truth value of a Python object, as \<^verbatim>\<open>if x:\<close> and \<^verbatim>\<open>x or y\<close> test it.\<close>

fun truthy :: "json \<Rightarrow> bool" where
  "truthy JNull = False"
| "truthy (JBool b) = b"
| "truthy (JInt i) = (i \<noteq> 0)"
| "truthy (JFloat f) = (f \<noteq> Finite 0)"
| "truthy (JStr s) = (s \<noteq> [])"
| "truthy (JArr xs) = (xs \<noteq> [])"
| "truthy (JObj kvs) = (kvs \<noteq> [])"

text \<open>\<^verbatim>\<open>x.get(key, default)\<close>: only a dict has the method.\<close>

fun get :: "json \<Rightarrow> string \<Rightarrow> json \<Rightarrow> error + json" where
  "get (JObj kvs) k dflt = Inr (case map_of kvs k of Some v \<Rightarrow> v | None \<Rightarrow> dflt)"
| "get _ k dflt = Inl AttributeError"

text \<open>
  \<^verbatim>\<open>x[i]\<close> for a non-negative integer literal \<open>i\<close>: an element of a list, a
  one-character string of a string; a dict has string keys, so the lookup fails.
\<close>

fun subscript :: "json \<Rightarrow> nat \<Rightarrow> error + json" where
  "subscript (JArr xs) i = (if i < length xs then Inr (xs ! i) else Inl IndexError)"
| "subscript (JStr s) i = (if i < length s then Inr (JStr [s ! i]) else Inl IndexError)"
| "subscript (JObj kvs) i = Inl KeyError"
| "subscript _ i = Inl TypeError"

text \<open>\<^verbatim>\<open>len(x)\<close>.\<close>

fun len :: "json \<Rightarrow> error + nat" where
  "len (JArr xs) = Inr (length xs)"
| "len (JStr s) = Inr (length s)"
| "len (JObj kvs) = Inr (length kvs)"
| "len _ = Inl TypeError"

text \<open>
  The items that \<^verbatim>\<open>for item in x[:n]\<close> visits: the first \<open>n\<close> elements of a list,
  the first \<open>n\<close> characters of a string; other objects cannot be sliced.
\<close>

fun items_of_slice :: "nat \<Rightarrow> json \<Rightarrow> error + json list" where
  "items_of_slice n (JArr xs) = Inr (take n xs)"
| "items_of_slice n (JStr s) = Inr (map (\<lambda>c. JStr [c]) (take n s))"
| "items_of_slice n (JObj kvs) = Inl KeyError"
| "items_of_slice n _ = Inl TypeError"

text \<open>\<^verbatim>\<open>if not KEY\<close> for a value of \<^verbatim>\<open>os.getenv\<close>: unset or empty.\<close>

definition unset :: "string option \<Rightarrow> bool" where
  "unset k = (k = None \<or> k = Some [])"

section \<open>The environment of a request\<close>

text \<open>
  What the program takes from outside itself: the four credentials read at import,
  the generative provider, the network, the storage engine's verdict on each commit
  of the request (numbered from 0), and the functions of Python's and pydantic's
  libraries whose results depend on floating point, object representation or the
  library version. These are parameters: the theorems hold for every value of them.
\<close>

datatype gen_outcome =
    GenRaises
  | GenNoText
  | GenText string

datatype net_call =
    SerpApi "(string \<times> string) list"
  | Mapbox string string
  | OpenWeather pyfloat pyfloat string

record env =
  GEMINI_API_KEY :: "string option"
  MAPBOX_ACCESS_TOKEN :: "string option"
  WEATHER_API_KEY :: "string option"
  SERPAPI_API_KEY :: "string option"
  generate_content :: "string \<Rightarrow> gen_outcome"
  http :: "net_call \<Rightarrow> error + json"
  commit_succeeds :: "nat \<Rightarrow> bool"
  json_loads :: "string \<Rightarrow> json option"
  json_dumps :: "json \<Rightarrow> string"
  float_of_str :: "string \<Rightarrow> pyfloat option"
  str_of :: "json \<Rightarrow> string"
  format_1f :: "pyfloat \<Rightarrow> string"
  coerce_int :: "json \<Rightarrow> int option"
  coerce_float :: "json \<Rightarrow> pyfloat option"
  coerce_str :: "json \<Rightarrow> string option"

text \<open>
  \<open>generate_content\<close>: \<open>GenRaises\<close> when the call raises, \<open>GenNoText\<close> when it returns
  a response whose \<^verbatim>\<open>.text\<close> raises, \<open>GenText\<close> otherwise.
  \<open>http\<close>: the decoded body of a successful call, or the client's exception.
  \<open>json_loads\<close>: \<open>None\<close> is \<^verbatim>\<open>JSONDecodeError\<close>.
  \<open>float_of_str\<close>: \<^verbatim>\<open>float(s)\<close> of a string, \<open>None\<close> is \<^verbatim>\<open>ValueError\<close>.
  \<open>str_of\<close>: \<^verbatim>\<open>str(x)\<close> of an object that is not a string.
  \<open>format_1f\<close>: \<^verbatim>\<open>format(x, ".1f")\<close>.
  \<open>coerce_int\<close>, \<open>coerce_float\<close>, \<open>coerce_str\<close>: pydantic's conversion of a value
  that is not already of the field's type, \<open>None\<close> is \<^verbatim>\<open>ValidationError\<close>.
\<close>

section \<open>Provider adapters\<close>

text \<open>
  Each adapter returns its result together with the network calls it attempted.
  The \<^verbatim>\<open>try\<close> body is the call followed by a function of the call's result
  that can raise; \<^verbatim>\<open>except Exception\<close> turns every exception into the empty
  result. The call of an adapter is the one its parameters describe.
\<close>

definition event_entry :: "json \<Rightarrow> error + json" where
  "event_entry event =
     andthen (get event ''title'' (JStr [])) (\<lambda>title.
     andthen (get event ''date'' (JObj [])) (\<lambda>date.
     andthen (get date ''when'' (JStr [])) (\<lambda>when.
     andthen (get event ''address'' JNull) (\<lambda>has_address.
     andthen (if truthy has_address
              then andthen (get event ''address'' (JArr [JStr []])) (\<lambda>a. subscript a 0)
              else Inr (JStr [])) (\<lambda>address.
     andthen (get event ''link'' (JStr [])) (\<lambda>link.
     andthen (get event ''thumbnail'' (JStr [])) (\<lambda>thumbnail.
       Inr (JObj [(''title'', title), (''date'', when), (''address'', address),
                  (''link'', link), (''thumbnail'', thumbnail)]))))))))"

definition events_of_results :: "json \<Rightarrow> error + json list" where
  "events_of_results results =
     andthen (get results ''events_results'' (JArr [])) (\<lambda>events_results.
     andthen (items_of_slice 5 events_results) (map_raising event_entry))"

definition events_call :: "string \<Rightarrow> string \<Rightarrow> net_call" where
  "events_call key destination =
     SerpApi [(''engine'', ''google_events''), (''q'', ''Events in '' @ destination),
              (''api_key'', key), (''hl'', ''en'')]"

definition fetch_google_events :: "env \<Rightarrow> string \<Rightarrow> json list \<times> net_call list" where
  "fetch_google_events env destination =
     (case SERPAPI_API_KEY env of
        None \<Rightarrow> ([], [])
      | Some key \<Rightarrow>
          if key = [] then ([], [])
          else
            (case andthen (http env (events_call key destination)) events_of_results of
               Inl e \<Rightarrow> []
             | Inr events \<Rightarrow> events,
             [events_call key destination]))"

definition hotel_entry :: "json \<Rightarrow> error + json" where
  "hotel_entry prop =
     andthen (get prop ''name'' (JStr [])) (\<lambda>name.
     andthen (get prop ''overall_rating'' (JInt 0)) (\<lambda>rating.
     andthen (get prop ''rate_per_night'' (JObj [])) (\<lambda>rate.
     andthen (get rate ''extracted_lowest'' (JStr ''N/A'')) (\<lambda>price.
     andthen (get prop ''images'' JNull) (\<lambda>has_images.
     andthen (if truthy has_images
              then andthen (get prop ''images'' (JArr [JObj []])) (\<lambda>imgs.
                   andthen (subscript imgs 0) (\<lambda>img. get img ''thumbnail'' (JStr [])))
              else Inr (JStr [])) (\<lambda>image.
     andthen (get prop ''link'' (JStr [])) (\<lambda>link.
     andthen (get prop ''description'' (JStr [])) (\<lambda>description.
       Inr (JObj [(''name'', name), (''rating'', rating), (''price'', price),
                  (''image'', image), (''link'', link),
                  (''description'', description)])))))))))"

definition hotels_of_results :: "json \<Rightarrow> error + json list" where
  "hotels_of_results results =
     andthen (get results ''properties'' (JArr [])) (\<lambda>properties.
     andthen (items_of_slice 6 properties) (map_raising hotel_entry))"

definition hotels_call ::
  "string \<Rightarrow> string \<Rightarrow> string option \<Rightarrow> string option \<Rightarrow> net_call" where
  "hotels_call key destination check_in check_out =
     SerpApi ([(''engine'', ''google_hotels''), (''q'', ''Hotels in '' @ destination),
               (''api_key'', key), (''hl'', ''en''), (''currency'', ''INR'')]
              @ (case check_in of
                   Some d \<Rightarrow> if d \<noteq> [] then [(''check_in_date'', d)] else []
                 | None \<Rightarrow> [])
              @ (case check_out of
                   Some d \<Rightarrow> if d \<noteq> [] then [(''check_out_date'', d)] else []
                 | None \<Rightarrow> []))"

definition fetch_hotels ::
  "env \<Rightarrow> string \<Rightarrow> string option \<Rightarrow> string option \<Rightarrow> json list \<times> net_call list" where
  "fetch_hotels env destination check_in check_out =
     (case SERPAPI_API_KEY env of
        None \<Rightarrow> ([], [])
      | Some key \<Rightarrow>
          if key = [] then ([], [])
          else
            (case andthen (http env (hotels_call key destination check_in check_out))
                    hotels_of_results of
               Inl e \<Rightarrow> []
             | Inr hotels \<Rightarrow> hotels,
             [hotels_call key destination check_in check_out]))"

definition restaurant_entry :: "json \<Rightarrow> error + json" where
  "restaurant_entry place =
     andthen (get place ''title'' (JStr [])) (\<lambda>name.
     andthen (get place ''rating'' (JInt 0)) (\<lambda>rating.
     andthen (get place ''reviews'' (JInt 0)) (\<lambda>reviews.
     andthen (get place ''price'' (JStr [])) (\<lambda>price.
     andthen (get place ''type'' (JStr ''Restaurant'')) (\<lambda>type.
     andthen (get place ''address'' (JStr [])) (\<lambda>address.
     andthen (get place ''thumbnail'' (JStr [])) (\<lambda>thumbnail.
     andthen (get place ''link'' (JStr [])) (\<lambda>link.
       Inr (JObj [(''name'', name), (''rating'', rating), (''reviews'', reviews),
                  (''price'', price), (''type'', type), (''address'', address),
                  (''thumbnail'', thumbnail), (''link'', link)])))))))))"

definition restaurants_of_results :: "json \<Rightarrow> error + json list" where
  "restaurants_of_results results =
     andthen (get results ''local_results'' (JArr [])) (\<lambda>local_results.
     andthen (items_of_slice 8 local_results) (map_raising restaurant_entry))"

definition restaurants_call :: "string \<Rightarrow> string \<Rightarrow> net_call" where
  "restaurants_call key destination =
     SerpApi [(''engine'', ''google_maps''),
              (''q'', ''restaurants and street food in '' @ destination),
              (''type'', ''search''), (''api_key'', key), (''hl'', ''en'')]"

definition fetch_restaurants :: "env \<Rightarrow> string \<Rightarrow> json list \<times> net_call list" where
  "fetch_restaurants env destination =
     (case SERPAPI_API_KEY env of
        None \<Rightarrow> ([], [])
      | Some key \<Rightarrow>
          if key = [] then ([], [])
          else
            (case andthen (http env (restaurants_call key destination))
                    restaurants_of_results of
               Inl e \<Rightarrow> []
             | Inr restaurants \<Rightarrow> restaurants,
             [restaurants_call key destination]))"

text \<open>\<^verbatim>\<open>float(x)\<close> of a decoded value.\<close>

fun to_float :: "env \<Rightarrow> json \<Rightarrow> error + pyfloat" where
  "to_float env (JInt i) = int_to_float i"
| "to_float env (JFloat f) = Inr f"
| "to_float env (JBool b) = Inr (Finite (if b then 1 else 0))"
| "to_float env (JStr s) =
     (case float_of_str env s of None \<Rightarrow> Inl ValueError | Some f \<Rightarrow> Inr f)"
| "to_float env _ = Inl TypeError"

text \<open>
  The \<^verbatim>\<open>try\<close> body of \<open>geocode_destination\<close> after the call: \<open>None\<close> when it falls
  through to the final \<^verbatim>\<open>return None, None\<close>. Mapbox's centre is [lng, lat].
\<close>

definition coordinates_of_body :: "env \<Rightarrow> json \<Rightarrow> error + (pyfloat \<times> pyfloat) option" where
  "coordinates_of_body env data =
     andthen (get data ''features'' JNull) (\<lambda>f.
       let features = (if truthy f then f else JArr []) in
       if truthy features then
         andthen (subscript features 0) (\<lambda>first.
         andthen (get first ''center'' JNull) (\<lambda>c.
           let coords = (if truthy c then c else JArr []) in
           andthen (len coords) (\<lambda>n.
             if n = 2 then
               andthen (subscript coords 1) (\<lambda>c1.
               andthen (to_float env c1) (\<lambda>lat.
               andthen (subscript coords 0) (\<lambda>c0.
               andthen (to_float env c0) (\<lambda>lng.
                 Inr (Some (lat, lng))))))
             else Inr None)))
       else Inr None)"

definition geocode_destination ::
  "env \<Rightarrow> string \<Rightarrow> (pyfloat option \<times> pyfloat option) \<times> net_call list" where
  "geocode_destination env destination =
     (case MAPBOX_ACCESS_TOKEN env of
        None \<Rightarrow> ((None, None), [])
      | Some token \<Rightarrow>
          if token = [] then ((None, None), [])
          else
            (case andthen (http env (Mapbox destination token)) (coordinates_of_body env) of
               Inl e \<Rightarrow> (None, None)
             | Inr None \<Rightarrow> (None, None)
             | Inr (Some (lat, lng)) \<Rightarrow> (Some lat, Some lng),
             [Mapbox destination token]))"

text \<open>\<^verbatim>\<open>f"{x}"\<close> and \<^verbatim>\<open>f"{x:.1f}"\<close> of a decoded value.\<close>

definition fstr :: "env \<Rightarrow> json \<Rightarrow> string" where
  "fstr env v = (case v of JStr s \<Rightarrow> s | _ \<Rightarrow> str_of env v)"

fun fstr_1f :: "env \<Rightarrow> json \<Rightarrow> error + string" where
  "fstr_1f env (JInt i) = andthen (int_to_float i) (\<lambda>f. Inr (format_1f env f))"
| "fstr_1f env (JFloat f) = Inr (format_1f env f)"
| "fstr_1f env (JBool b) = Inr (format_1f env (Finite (if b then 1 else 0)))"
| "fstr_1f env (JStr s) = Inl ValueError"
| "fstr_1f env _ = Inl TypeError"

text \<open>The degree sign of the weather line, in UTF-8.\<close>

definition degree_C :: string where
  "degree_C = [CHR 0xC2, CHR 0xB0, CHR ''C'']"

definition weather_of_body :: "env \<Rightarrow> json \<Rightarrow> error + string option" where
  "weather_of_body env data =
     andthen (get data ''weather'' (JArr [JObj []])) (\<lambda>w.
     andthen (subscript w 0) (\<lambda>w0.
     andthen (get w0 ''description'' (JStr [])) (\<lambda>main.
     andthen (get data ''main'' (JObj [])) (\<lambda>m.
     andthen (get m ''temp'' JNull) (\<lambda>temp.
     andthen (get data ''main'' (JObj [])) (\<lambda>m'.
     andthen (get m' ''feels_like'' JNull) (\<lambda>feels.
       if temp \<noteq> JNull \<and> feels \<noteq> JNull then
         andthen (fstr_1f env temp) (\<lambda>t.
         andthen (fstr_1f env feels) (\<lambda>f.
           Inr (Some (''Current weather: '' @ fstr env main @ '', '' @ t @ degree_C
                      @ '' (feels like '' @ f @ degree_C @ '')''))))
       else if truthy main then Inr (Some (''Current weather: '' @ fstr env main))
       else Inr None)))))))"

definition fetch_weather ::
  "env \<Rightarrow> pyfloat option \<Rightarrow> pyfloat option \<Rightarrow> string option \<times> net_call list" where
  "fetch_weather env lat lng =
     (case (WEATHER_API_KEY env, lat, lng) of
        (Some key, Some la, Some lo) \<Rightarrow>
          if key = [] then (None, [])
          else
            (case andthen (http env (OpenWeather la lo key)) (weather_of_body env) of
               Inl e \<Rightarrow> None
             | Inr summary \<Rightarrow> summary,
             [OpenWeather la lo key])
      | _ \<Rightarrow> (None, []))"

section \<open>Strings\<close>

text \<open>
  Strings are byte strings. \<open>join\<close> is \<^verbatim>\<open>sep.join(xs)\<close>, \<open>split\<close> is
  \<^verbatim>\<open>s.split(c)\<close> for a one-character separator, \<open>str_find\<close> and \<open>str_rfind\<close> are
  \<^verbatim>\<open>s.find(c)\<close> and \<^verbatim>\<open>s.rfind(c)\<close> (-1 when absent), \<open>slice s a b\<close> is
  \<^verbatim>\<open>s[a:b]\<close> for 0 \<le> a, \<open>strip\<close> removes ASCII whitespace at both ends.
\<close>

fun join :: "string \<Rightarrow> string list \<Rightarrow> string" where
  "join sep [] = []"
| "join sep [x] = x"
| "join sep (x # y # ys) = x @ sep @ join sep (y # ys)"

fun split :: "char \<Rightarrow> string \<Rightarrow> string list" where
  "split c [] = [[]]"
| "split c (x # xs) =
     (if x = c then [] # split c xs
      else (case split c xs of [] \<Rightarrow> [[x]] | w # ws \<Rightarrow> (x # w) # ws))"

fun str_find :: "char \<Rightarrow> string \<Rightarrow> int" where
  "str_find c [] = -1"
| "str_find c (x # xs) =
     (if x = c then 0 else (let i = str_find c xs in if i = -1 then -1 else i + 1))"

definition str_rfind :: "char \<Rightarrow> string \<Rightarrow> int" where
  "str_rfind c s =
     (let i = str_find c (rev s) in if i = -1 then -1 else int (length s) - 1 - i)"

definition slice :: "string \<Rightarrow> int \<Rightarrow> int \<Rightarrow> string" where
  "slice s a b = take (nat (b - a)) (drop (nat a) s)"

definition is_space :: "char \<Rightarrow> bool" where
  "is_space c = (c \<in> set [CHR '' '', CHR 0x09, CHR 0x0A, CHR 0x0B, CHR 0x0C, CHR 0x0D,
                           CHR 0x1C, CHR 0x1D, CHR 0x1E, CHR 0x1F])"

definition strip :: "string \<Rightarrow> string" where
  "strip s = rev (dropWhile is_space (rev (dropWhile is_space s)))"

definition startswith :: "string \<Rightarrow> string \<Rightarrow> bool" where
  "startswith s p = (take (length p) s = p)"

definition endswith :: "string \<Rightarrow> string \<Rightarrow> bool" where
  "endswith s p = (length p \<le> length s \<and> drop (length s - length p) s = p)"

text \<open>\<^verbatim>\<open>str(n)\<close> of an integer.\<close>

function str_nat :: "nat \<Rightarrow> string" where
  "str_nat n =
     (if n < 10 then [char_of (48 + n)]
      else str_nat (n div 10) @ [char_of (48 + n mod 10)])"
  by pat_completeness auto
termination
  by (relation "measure id") auto

definition str_int :: "int \<Rightarrow> string" where
  "str_int i = (if i < 0 then CHR ''-'' # str_nat (nat (- i)) else str_nat (nat i))"

section \<open>API models and database rows\<close>

record TripRequest =
  origin :: "string option"
  destination :: string
  days :: int
  budget_level :: "string option"
  travelers :: "int option"
  travel_month :: "string option"
  preferences :: "string list option"
  "notes" :: "string option"
  user_id :: "string option"

record DayPlan =
  day :: int
  title :: string
  summary :: string
  places :: "string list"

record TripPlan =
  id :: "int option"
  destination :: string
  days :: int
  budget_level :: string
  overview :: string
  daily_plan :: "DayPlan list"
  tips :: "string list"
  estimated_total_budget :: "pyfloat option"
  estimated_per_person :: "pyfloat option"
  budget_breakdown :: "(string \<times> json) list option"
  lat :: "pyfloat option"
  lng :: "pyfloat option"
  weather_summary :: "string option"
  events :: "json list option"
  hotels :: "json list option"
  restaurants :: "json list option"

record Trip =
  id :: "int option"
  user_id :: "string option"
  origin :: "string option"
  destination :: string
  days :: int
  budget_level :: string
  travelers :: int
  travel_month :: "string option"
  overview :: string
  tips :: string
  estimated_total_budget :: "pyfloat option"
  estimated_per_person :: "pyfloat option"
  lat :: "pyfloat option"
  lng :: "pyfloat option"
  weather_summary :: "string option"
  budget_breakdown :: "string option"

record Day =
  id :: "int option"
  trip_id :: int
  day_number :: int
  title :: string
  summary :: string
  places :: string

section \<open>Storage\<close>

text \<open>
  The committed rows of the two tables, in insertion order. A primary key is
  assigned at the commit that inserts the row: one more than the largest key of
  the table (the rule of the default SQLite engine). A commit that the engine
  refuses raises and leaves the committed rows as they were; what was committed
  before stays.
\<close>

record store =
  trips :: "Trip list"
  day_rows :: "Day list"

definition fresh_id :: "int option list \<Rightarrow> int" where
  "fresh_id ids = fold (\<lambda>i m. case i of None \<Rightarrow> m | Some k \<Rightarrow> max k m) ids 0 + 1"

definition commit_trip :: "env \<Rightarrow> nat \<Rightarrow> store \<Rightarrow> Trip \<Rightarrow> error + (int \<times> store)" where
  "commit_trip env n st db_trip =
     (if commit_succeeds env n then
        let i = fresh_id (map Trip.id (trips st))
        in Inr (i, st\<lparr>trips := trips st @ [db_trip\<lparr>Trip.id := Some i\<rparr>]\<rparr>)
      else Inl OperationalError)"

fun number_days :: "int \<Rightarrow> Day list \<Rightarrow> Day list" where
  "number_days i [] = []"
| "number_days i (d # ds) = d\<lparr>Day.id := Some i\<rparr> # number_days (i + 1) ds"

definition commit_days :: "env \<Rightarrow> nat \<Rightarrow> store \<Rightarrow> Day list \<Rightarrow> error + store" where
  "commit_days env n st db_days =
     (if commit_succeeds env n then
        Inr (st\<lparr>day_rows := day_rows st
                   @ number_days (fresh_id (map Day.id (day_rows st))) db_days\<rparr>)
      else Inl OperationalError)"

text \<open>
  The Trip row that \<open>create_and_save_dummy_trip\<close> (lines 506-521), \<open>plan_trip\<close>
  (lines 595-611) and \<open>chat_interaction\<close> (lines 804-819) each build from the
  request and the plan; they differ in the traveler count and the breakdown column.
\<close>

definition db_trip_of ::
  "string option \<Rightarrow> TripRequest \<Rightarrow> int \<Rightarrow> TripPlan \<Rightarrow> string option \<Rightarrow> Trip" where
  "db_trip_of uid request n_travelers plan breakdown =
     \<lparr> Trip.id = None,
       user_id = uid,
       origin = TripRequest.origin request,
       destination = TripPlan.destination plan,
       days = TripPlan.days plan,
       budget_level = TripPlan.budget_level plan,
       travelers = n_travelers,
       travel_month = TripRequest.travel_month request,
       overview = TripPlan.overview plan,
       tips = join [CHR 0x0A] (TripPlan.tips plan),
       estimated_total_budget = TripPlan.estimated_total_budget plan,
       estimated_per_person = TripPlan.estimated_per_person plan,
       lat = TripPlan.lat plan,
       lng = TripPlan.lng plan,
       weather_summary = TripPlan.weather_summary plan,
       budget_breakdown = breakdown \<rparr>"

definition db_day :: "int \<Rightarrow> DayPlan \<Rightarrow> Day" where
  "db_day tid d =
     \<lparr> Day.id = None, trip_id = tid, day_number = day d, title = DayPlan.title d,
       summary = DayPlan.summary d, places = join [CHR 0x0A] (DayPlan.places d) \<rparr>"

text \<open>
  The write sequence that the same three places spell out (lines 522-536,
  612-628, 820-829): add the Trip, commit, refresh; add one Day per DayPlan,
  commit; set the plan's id. The result is the plan with its id, or the
  exception of the commit that failed, with the committed rows at that point.
\<close>

definition save_trip :: "env \<Rightarrow> store \<Rightarrow> Trip \<Rightarrow> TripPlan \<Rightarrow> (error + TripPlan) \<times> store" where
  "save_trip env st db_trip plan =
     (case commit_trip env 0 st db_trip of
        Inl e \<Rightarrow> (Inl e, st)
      | Inr (tid, st1) \<Rightarrow>
          (case commit_days env 1 st1 (map (db_day tid) (daily_plan plan)) of
             Inl e \<Rightarrow> (Inl e, st1)
           | Inr st2 \<Rightarrow> (Inr (plan\<lparr>TripPlan.id := Some tid\<rparr>), st2)))"

section \<open>Prompt of the itinerary generation\<close>

text \<open>\<^verbatim>\<open>x or default\<close> and \<^verbatim>\<open>f"{x}"\<close> for optional strings and integers.\<close>

definition str_or :: "string option \<Rightarrow> string \<Rightarrow> string" where
  "str_or x dflt = (case x of None \<Rightarrow> dflt | Some s \<Rightarrow> if s = [] then dflt else s)"

definition int_or :: "int option \<Rightarrow> int \<Rightarrow> int" where
  "int_or x dflt = (case x of None \<Rightarrow> dflt | Some i \<Rightarrow> if i = 0 then dflt else i)"

definition fstr_opt_str :: "string option \<Rightarrow> string" where
  "fstr_opt_str x = (case x of None \<Rightarrow> ''None'' | Some s \<Rightarrow> s)"

definition fstr_opt_int :: "int option \<Rightarrow> string" where
  "fstr_opt_int x = (case x of None \<Rightarrow> ''None'' | Some i \<Rightarrow> str_int i)"

definition build_prompt :: "TripRequest \<Rightarrow> string" where
  \<open>build_prompt payload =
     (let prefs = (case preferences payload of
                     None \<Rightarrow> ''general sightseeing''
                   | Some ps \<Rightarrow> if ps = [] then ''general sightseeing'' else join '', '' ps)
      in ''\<newline>You are an expert travel planner.\<newline>''
       @ ''Create a highly personalized, day-wise trip itinerary in JSON only (no extra text).\<newline>''
       @ ''\<newline>''
       @ ''User details:\<newline>''
       @ ''- Origin: '' @ str_or (TripRequest.origin payload) ''Not specified'' @ ''\<newline>''
       @ ''- Destination: '' @ TripRequest.destination payload @ ''\<newline>''
       @ ''- Days: '' @ str_int (TripRequest.days payload) @ ''\<newline>''
       @ ''- Budget level: '' @ fstr_opt_str (TripRequest.budget_level payload) @ ''\<newline>''
       @ ''- Number of travelers: '' @ fstr_opt_int (TripRequest.travelers payload) @ ''\<newline>''
       @ ''- Travel month/season: ''
       @ str_or (TripRequest.travel_month payload) ''Not specified'' @ ''\<newline>''
       @ ''- Preferences: '' @ prefs @ ''\<newline>''
       @ ''- Extra notes: '' @ str_or (notes payload) ''None'' @ ''\<newline>''
       @ ''\<newline>''
       @ ''Return JSON with this exact structure:\<newline>''
       @ ''{\<newline>''
       @ ''  "destination": "...",\<newline>''
       @ ''  "days": '' @ str_int (TripRequest.days payload) @ '',\<newline>''
       @ ''  "budget_level": "'' @ fstr_opt_str (TripRequest.budget_level payload) @ ''",\<newline>''
       @ ''  "overview": "High-level summary of the trip tailored to the user.",\<newline>''
       @ ''  "daily_plan": [\<newline>''
       @ ''    {\<newline>''
       @ ''      "day": 1,\<newline>''
       @ ''      "title": "Short title",\<newline>''
       @ ''      "summary": "1-2 sentence summary of the day.",\<newline>''
       @ ''      "places": ["Place 1", "Place 2", "Place 3"]\<newline>''
       @ ''    }\<newline>''
       @ ''  ],\<newline>''
       @ ''  "budget_breakdown": {\<newline>''
       @ ''      "accommodation": "Numerical value (INR)",\<newline>''
       @ ''      "transport": "Numerical value (INR) (Include travel from ''
       @ str_or (TripRequest.origin payload) ''Origin'' @ '' to ''
       @ TripRequest.destination payload @ '')",\<newline>''
       @ ''      "food": "Numerical value (INR)",\<newline>''
       @ ''      "activities": "Numerical value (INR)",\<newline>''
       @ ''      "total": "Sum of above"\<newline>''
       @ ''  },\<newline>''
       @ ''  "tips": [\<newline>''
       @ ''    "Travel / packing / safety / budget optimization tips tailored to this trip"\<newline>''
       @ ''  ]\<newline>''
       @ ''}\<newline>''
       @ ''Ensure there are exactly '' @ str_int (TripRequest.days payload)
       @ '' entries in "daily_plan".\<newline>'')\<close>

section \<open>Validation of the generated plan\<close>

text \<open>
  \<^verbatim>\<open>TripPlan(**data)\<close>: pydantic validates every field of the model against the
  dict, ignores other keys, and raises one \<^verbatim>\<open>ValidationError\<close> when any field
  fails. A value already of the field's type is taken as it is; another value
  goes to the library's conversion.
\<close>

definition validate_str :: "env \<Rightarrow> json \<Rightarrow> string option" where
  "validate_str env v = (case v of JStr s \<Rightarrow> Some s | _ \<Rightarrow> coerce_str env v)"

definition validate_int :: "env \<Rightarrow> json \<Rightarrow> int option" where
  "validate_int env v = (case v of JInt i \<Rightarrow> Some i | _ \<Rightarrow> coerce_int env v)"

definition validate_float :: "env \<Rightarrow> json \<Rightarrow> pyfloat option" where
  "validate_float env v = (case v of JFloat f \<Rightarrow> Some f | _ \<Rightarrow> coerce_float env v)"

definition validate_list :: "(json \<Rightarrow> 'a option) \<Rightarrow> json \<Rightarrow> 'a list option" where
  "validate_list f v = (case v of JArr xs \<Rightarrow> those (map f xs) | _ \<Rightarrow> None)"

definition validate_dict :: "json \<Rightarrow> (string \<times> json) list option" where
  "validate_dict v = (case v of JObj kvs \<Rightarrow> Some kvs | _ \<Rightarrow> None)"

definition validate_dict_item :: "json \<Rightarrow> json option" where
  "validate_dict_item v = (case v of JObj kvs \<Rightarrow> Some v | _ \<Rightarrow> None)"

text \<open>A required field, and an optional field whose default is \<^verbatim>\<open>None\<close>.\<close>

definition required :: "(string \<times> json) list \<Rightarrow> string \<Rightarrow> (json \<Rightarrow> 'a option) \<Rightarrow> 'a option" where
  "required kvs k f = (case map_of kvs k of None \<Rightarrow> None | Some v \<Rightarrow> f v)"

definition optional ::
  "(string \<times> json) list \<Rightarrow> string \<Rightarrow> (json \<Rightarrow> 'a option) \<Rightarrow> 'a option option" where
  "optional kvs k f =
     (case map_of kvs k of
        None \<Rightarrow> Some None
      | Some JNull \<Rightarrow> Some None
      | Some v \<Rightarrow> map_option Some (f v))"

definition DayPlan_validate :: "env \<Rightarrow> json \<Rightarrow> DayPlan option" where
  "DayPlan_validate env v =
     (case v of
        JObj kvs \<Rightarrow>
          Option.bind (required kvs ''day'' (validate_int env)) (\<lambda>d.
          Option.bind (required kvs ''title'' (validate_str env)) (\<lambda>t.
          Option.bind (required kvs ''summary'' (validate_str env)) (\<lambda>s.
          Option.bind (required kvs ''places'' (validate_list (validate_str env))) (\<lambda>p.
            Some \<lparr> day = d, title = t, summary = s, places = p \<rparr>))))
      | _ \<Rightarrow> None)"

definition TripPlan_fields :: "env \<Rightarrow> (string \<times> json) list \<Rightarrow> TripPlan option" where
  "TripPlan_fields env kvs =
     Option.bind (optional kvs ''id'' (validate_int env)) (\<lambda>v_id.
     Option.bind (required kvs ''destination'' (validate_str env)) (\<lambda>v_destination.
     Option.bind (required kvs ''days'' (validate_int env)) (\<lambda>v_days.
     Option.bind (required kvs ''budget_level'' (validate_str env)) (\<lambda>v_budget_level.
     Option.bind (required kvs ''overview'' (validate_str env)) (\<lambda>v_overview.
     Option.bind (required kvs ''daily_plan'' (validate_list (DayPlan_validate env))) (\<lambda>v_daily_plan.
     Option.bind (required kvs ''tips'' (validate_list (validate_str env))) (\<lambda>v_tips.
     Option.bind (optional kvs ''estimated_total_budget'' (validate_float env)) (\<lambda>v_total.
     Option.bind (optional kvs ''estimated_per_person'' (validate_float env)) (\<lambda>v_per_person.
     Option.bind (optional kvs ''budget_breakdown'' validate_dict) (\<lambda>v_breakdown.
     Option.bind (optional kvs ''lat'' (validate_float env)) (\<lambda>v_lat.
     Option.bind (optional kvs ''lng'' (validate_float env)) (\<lambda>v_lng.
     Option.bind (optional kvs ''weather_summary'' (validate_str env)) (\<lambda>v_weather.
     Option.bind (optional kvs ''events'' (validate_list validate_dict_item)) (\<lambda>v_events.
     Option.bind (optional kvs ''hotels'' (validate_list validate_dict_item)) (\<lambda>v_hotels.
     Option.bind (optional kvs ''restaurants'' (validate_list validate_dict_item)) (\<lambda>v_restaurants.
       Some \<lparr> TripPlan.id = v_id, destination = v_destination, days = v_days,
              budget_level = v_budget_level, overview = v_overview,
              daily_plan = v_daily_plan, tips = v_tips,
              estimated_total_budget = v_total, estimated_per_person = v_per_person,
              budget_breakdown = v_breakdown, lat = v_lat, lng = v_lng,
              weather_summary = v_weather, events = v_events, hotels = v_hotels,
              restaurants = v_restaurants \<rparr>))))))))))))))))"

definition TripPlan_validate :: "env \<Rightarrow> (string \<times> json) list \<Rightarrow> error + TripPlan" where
  "TripPlan_validate env kvs =
     (case TripPlan_fields env kvs of None \<Rightarrow> Inl ValidationError | Some p \<Rightarrow> Inr p)"

text \<open>\<^verbatim>\<open>data.setdefault(k, v)\<close>, \<^verbatim>\<open>data[k] = v\<close> on a dict, and the optional values
  that the program stores into the dict.\<close>

definition setdefault :: "json \<Rightarrow> string \<Rightarrow> json \<Rightarrow> error + (string \<times> json) list" where
  "setdefault data k v =
     (case data of
        JObj kvs \<Rightarrow> Inr (case map_of kvs k of None \<Rightarrow> kvs @ [(k, v)] | Some w \<Rightarrow> kvs)
      | _ \<Rightarrow> Inl AttributeError)"

definition setitem :: "string \<Rightarrow> json \<Rightarrow> (string \<times> json) list \<Rightarrow> (string \<times> json) list" where
  "setitem k v kvs = AList.update k v kvs"

definition float_or_none :: "pyfloat option \<Rightarrow> json" where
  "float_or_none x = (case x of None \<Rightarrow> JNull | Some f \<Rightarrow> JFloat f)"

definition str_or_none :: "string option \<Rightarrow> json" where
  "str_or_none x = (case x of None \<Rightarrow> JNull | Some s \<Rightarrow> JStr s)"

section \<open>Generation response parsing\<close>

text \<open>
  Lines 561-570 of \<open>plan_trip\<close>: decode the text; when that raises
  \<^verbatim>\<open>JSONDecodeError\<close>, decode the text from the first \<^verbatim>\<open>{\<close> to the last
  \<^verbatim>\<open>}\<close> when both exist in that order, and re-raise otherwise. The second
  decoding is not guarded.
\<close>

definition extract_json :: "env \<Rightarrow> string \<Rightarrow> error + json" where
  "extract_json env text =
     (case json_loads env text of
        Some data \<Rightarrow> Inr data
      | None \<Rightarrow>
          let start = str_find CHR ''{'' text;
              end = str_rfind CHR ''}'' text
          in if start \<noteq> -1 \<and> end \<noteq> -1 \<and> end > start then
               (case json_loads env (slice text start (end + 1)) of
                  Some data \<Rightarrow> Inr data
                | None \<Rightarrow> Inl JSONDecodeError)
             else Inl JSONDecodeError)"

section \<open>Trip plan orchestration\<close>

text \<open>
  The functions take the committed rows and return them with their result: an
  exception that escapes the endpoint (a server error) is \<open>Inl\<close>. The request's
  \<open>user_id\<close> has been overwritten with the authenticated user's name by the caller,
  \<open>plan_trip\<close>.
\<close>

definition sample_day :: "string \<Rightarrow> nat \<Rightarrow> DayPlan" where
  "sample_day dest i =
     \<lparr> day = int i + 1,
       title = ''Day '' @ str_int (int i + 1) @ '' in '' @ dest,
       summary = ''Sample summary. Configure GEMINI_API_KEY for real AI planning.'',
       places = map (\<lambda>j. ''Sample place '' @ str_int (int j + 1)) [0..<3] \<rparr>"

definition create_and_save_dummy_trip ::
  "env \<Rightarrow> store \<Rightarrow> TripRequest \<Rightarrow> (error + TripPlan) \<times> store" where
  "create_and_save_dummy_trip env st request =
     (case estimate_budget (TripRequest.days request)
             (int_or (TripRequest.travelers request) 1)
             (str_or (TripRequest.budget_level request) ''medium'') of
        Inl e \<Rightarrow> (Inl e, st)
      | Inr (tot, per_person) \<Rightarrow>
          let (la, lo) = fst (geocode_destination env (TripRequest.destination request));
              weather = fst (fetch_weather env la lo);
              dummy =
                \<lparr> TripPlan.id = None,
                  destination = TripRequest.destination request,
                  days = TripRequest.days request,
                  budget_level = str_or (TripRequest.budget_level request) ''medium'',
                  overview =
                    ''Demo itinerary because the AI trip planner is not fully configured. ''
                    @ ''Set GEMINI_API_KEY / GEMINI_MODEL for real AI planning.'',
                  daily_plan =
                    map (sample_day (TripRequest.destination request))
                        [0..<nat (TripRequest.days request)],
                  tips =
                    [''Set GEMINI_API_KEY in your backend environment.'',
                     ''Optionally set GEMINI_MODEL (e.g. gemini-3-flash-preview).'',
                     ''Restart the FastAPI server after setting the vars.''],
                  estimated_total_budget = Some tot,
                  estimated_per_person = Some per_person,
                  budget_breakdown = None,
                  lat = la, lng = lo, weather_summary = weather,
                  events = None, hotels = None, restaurants = None \<rparr>
          in save_trip env st
               (db_trip_of (TripRequest.user_id request) request
                  (int_or (TripRequest.travelers request) 1) dummy None)
               dummy)"

text \<open>Lines 572-628: enrichment, validation and persistence of the decoded plan.\<close>

definition enrich_and_save ::
  "env \<Rightarrow> store \<Rightarrow> TripRequest \<Rightarrow> json \<Rightarrow> (error + TripPlan) \<times> store" where
  "enrich_and_save env st request data =
     (case estimate_budget (TripRequest.days request)
             (int_or (TripRequest.travelers request) 1)
             (str_or (TripRequest.budget_level request) ''medium'') of
        Inl e \<Rightarrow> (Inl e, st)
      | Inr (tot, per_person) \<Rightarrow>
          let (la, lo) = fst (geocode_destination env (TripRequest.destination request));
              weather = fst (fetch_weather env la lo);
              evs = fst (fetch_google_events env (TripRequest.destination request));
              hts = fst (fetch_hotels env (TripRequest.destination request) None None);
              rts = fst (fetch_restaurants env (TripRequest.destination request))
          in (case setdefault data ''budget_level''
                     (JStr (str_or (TripRequest.budget_level request) ''medium'')) of
                Inl e \<Rightarrow> (Inl e, st)
              | Inr kvs \<Rightarrow>
                  (case TripPlan_validate env
                          (setitem ''restaurants'' (JArr rts)
                          (setitem ''hotels'' (JArr hts)
                          (setitem ''events'' (JArr evs)
                          (setitem ''weather_summary'' (str_or_none weather)
                          (setitem ''lng'' (float_or_none lo)
                          (setitem ''lat'' (float_or_none la)
                          (setitem ''estimated_per_person'' (JFloat per_person)
                          (setitem ''estimated_total_budget'' (JFloat tot) kvs)))))))) of
                     Inl e \<Rightarrow> (Inl e, st)
                   | Inr trip_plan \<Rightarrow>
                       save_trip env st
                         (db_trip_of (TripRequest.user_id request) request
                            (int_or (TripRequest.travelers request) 1) trip_plan
                            (case TripPlan.budget_breakdown trip_plan of
                               None \<Rightarrow> None
                             | Some bb \<Rightarrow>
                                 if bb = [] then None
                                 else Some (json_dumps env (JObj bb))))
                         trip_plan)))"

definition plan_trip ::
  "env \<Rightarrow> store \<Rightarrow> string \<Rightarrow> TripRequest \<Rightarrow> (error + TripPlan) \<times> store" where
  "plan_trip env st username request0 =
     (let request = request0\<lparr>TripRequest.user_id := Some username\<rparr> in
      if unset (GEMINI_API_KEY env) then create_and_save_dummy_trip env st request
      else
        (case generate_content env (build_prompt request) of
           GenRaises \<Rightarrow> create_and_save_dummy_trip env st request
         | GenNoText \<Rightarrow> (Inl ValueError, st)
         | GenText t \<Rightarrow>
             (case extract_json env (if t = [] then ''{}'' else t) of
                Inl e \<Rightarrow> (Inl e, st)
              | Inr data \<Rightarrow> enrich_and_save env st request data)))"

section \<open>Loading a trip\<close>

text \<open>
  \<open>get_trip\<close>: the Trip row of that key, owned by the caller, and its Day rows in
  the order of their day numbers (rows of equal day number in insertion order).
  The module has no \<^verbatim>\<open>import json\<close> of its own: the name \<^verbatim>\<open>json\<close> is bound only
  inside \<open>analyze_chat_intent\<close>, \<open>plan_trip\<close> and \<open>chat_interaction\<close>, so evaluating
  \<^verbatim>\<open>json.loads(trip.budget_breakdown)\<close> in \<open>get_trip\<close> raises \<^verbatim>\<open>NameError\<close>.
\<close>

definition lines_or_empty :: "string \<Rightarrow> string list" where
  "lines_or_empty s = (if s \<noteq> [] then split (CHR 0x0A) s else [])"

definition get_trip :: "store \<Rightarrow> int \<Rightarrow> string \<Rightarrow> error + TripPlan" where
  "get_trip st tid username =
     (case find (\<lambda>t. Trip.id t = Some tid) (trips st) of
        None \<Rightarrow> Inl HTTP404
      | Some trip \<Rightarrow>
          if Trip.user_id trip \<noteq> Some username then Inl HTTP404
          else
            let rows = sort_key day_number (filter (\<lambda>d. trip_id d = tid) (day_rows st));
                plan_days =
                  map (\<lambda>d. \<lparr> day = day_number d, title = Day.title d,
                              summary = Day.summary d,
                              places = lines_or_empty (Day.places d) \<rparr>) rows
            in (case Trip.budget_breakdown trip of
                  Some (c # cs) \<Rightarrow> Inl NameError
                | _ \<Rightarrow>
                    Inr \<lparr> TripPlan.id = Trip.id trip,
                          destination = Trip.destination trip,
                          days = Trip.days trip,
                          budget_level = Trip.budget_level trip,
                          overview = Trip.overview trip,
                          daily_plan = plan_days,
                          tips = lines_or_empty (Trip.tips trip),
                          estimated_total_budget = Trip.estimated_total_budget trip,
                          estimated_per_person = Trip.estimated_per_person trip,
                          budget_breakdown = None,
                          lat = Trip.lat trip, lng = Trip.lng trip,
                          weather_summary = Trip.weather_summary trip,
                          events = None, hotels = None, restaurants = None \<rparr>))"

section \<open>Conversational path\<close>

text \<open>
  A turn of the history is a dict; the last five turns and the new message make
  the conversation text of the intent prompt.
\<close>

definition conversation_text :: "env \<Rightarrow> string \<Rightarrow> (string \<times> json) list list \<Rightarrow> string" where
  "conversation_text env message history =
     concat (map (\<lambda>msg.
                (if map_of msg ''role'' = Some (JStr ''user'') then ''User'' else ''Assistant'')
                @ '': ''
                @ fstr env (case map_of msg ''content'' of None \<Rightarrow> JNull | Some v \<Rightarrow> v)
                @ [CHR 0x0A])
             (drop (length history - 5) history))
     @ ''User: '' @ message @ [CHR 0x0A]"

definition intent_prompt :: "string \<Rightarrow> string" where
  \<open>intent_prompt conversation =
       ''\<newline>    You are a helpful AI travel assistant. Analyze the conversation below.\<newline>''
     @ ''    Your goal is to gather these 5 pieces of information to plan a perfect trip:\<newline>''
     @ ''    1. Origin (Where are they traveling from?)\<newline>''
     @ ''    2. Destination (Where do they want to go?)\<newline>''
     @ ''    3. Number of Days\<newline>''
     @ ''    4. Number of Travelers\<newline>''
     @ ''    5. Budget Level (low, medium, high)\<newline>''
     @ ''\<newline>''
     @ ''    Conversation:\<newline>''
     @ ''    '' @ conversation @ ''\<newline>''
     @ ''\<newline>''
     @ ''    Instructions:\<newline>''
     @ ''    - You must gather ALL 5 pieces of information.\<newline>''
     @ ''    - Do NOT assume defaults for Origin, Travelers, or Budget. You must ask the user for these.\<newline>''
     @ ''    - Defaults: You MAY assume "3 days" if the user doesn'' @ [CHR 0x27]
     @ ''t specify duration but gives everything else.\<newline>''
     @ ''    - If any information is missing, ask a natural, friendly follow-up question to get it. Group questions if multiple things are missing.\<newline>''
     @ ''    - JSON Output Format:\<newline>''
     @ ''      - If you need more info: { "action": "continue", "response": "Your natural language response asking for the missing details." }\<newline>''
     @ ''      - If you have enough info to plan: { "action": "plan_ready", "params": { "origin": "...", "destination": "...", "days": N, "travelers": N, "budget_level": "..." } }\<newline>''
     @ ''    \<newline>''
     @ ''    Return ONLY VALID JSON.\<newline>''
     @ ''    ''\<close>

definition trouble_understanding :: json where
  "trouble_understanding =
     JObj [(''action'', JStr ''continue''),
           (''response'',
            JStr (''I'' @ [CHR 0x27] @ ''m having trouble understanding. ''
                  @ ''Could you please clarify where you want to go?''))]"

definition analyze_chat_intent :: "env \<Rightarrow> string \<Rightarrow> (string \<times> json) list list \<Rightarrow> json" where
  "analyze_chat_intent env message history =
     (if unset (GEMINI_API_KEY env) then
        JObj [(''action'', JStr ''error''), (''response'', JStr ''AI not configured.'')]
      else
        (case generate_content env (intent_prompt (conversation_text env message history)) of
           GenText text \<Rightarrow>
             let text1 = (if startswith text ''```json'' then drop 7 text else text);
                 text2 = (if endswith text1 ''```'' then take (length text1 - 3) text1 else text1)
             in (case json_loads env (strip text2) of
                   Some analysis \<Rightarrow> analysis
                 | None \<Rightarrow> trouble_understanding)
         | _ \<Rightarrow> trouble_understanding))"

datatype chat_reply =
    Continue json
  | PlanReady string TripPlan

text \<open>
  \<^verbatim>\<open>TripRequest(origin=params.get("origin"), ...)\<close> of \<open>chat_interaction\<close>: the
  defaults of the \<^verbatim>\<open>get\<close> calls are 3 days, 1 traveler and "medium".
\<close>

definition optional_value :: "(json \<Rightarrow> 'a option) \<Rightarrow> json \<Rightarrow> 'a option option" where
  "optional_value f v = (case v of JNull \<Rightarrow> Some None | _ \<Rightarrow> map_option Some (f v))"

definition request_of_params :: "env \<Rightarrow> string \<Rightarrow> json \<Rightarrow> error + TripRequest" where
  "request_of_params env username params =
     andthen (get params ''origin'' JNull) (\<lambda>p_origin.
     andthen (get params ''destination'' JNull) (\<lambda>p_destination.
     andthen (get params ''days'' (JInt 3)) (\<lambda>p_days.
     andthen (get params ''travelers'' (JInt 1)) (\<lambda>p_travelers.
     andthen (get params ''budget_level'' (JStr ''medium'')) (\<lambda>p_budget_level.
       (case (optional_value (validate_str env) p_origin,
              validate_str env p_destination,
              validate_int env p_days,
              optional_value (validate_int env) p_travelers,
              optional_value (validate_str env) p_budget_level) of
          (Some v_origin, Some v_destination, Some v_days, Some v_travelers,
           Some v_budget_level) \<Rightarrow>
            Inr \<lparr> TripRequest.origin = v_origin, destination = v_destination,
                  days = v_days, budget_level = v_budget_level,
                  travelers = v_travelers, travel_month = None, preferences = None,
                  notes = None, user_id = Some username \<rparr>
        | _ \<Rightarrow> Inl ValidationError))))))"

text \<open>
  The budget call of \<open>chat_interaction\<close> passes the request's optional fields as
  they are. A level of \<^verbatim>\<open>None\<close> is no key of the rate table, as the string
  "None" is none. With a traveler count of \<^verbatim>\<open>None\<close>,
  \<^verbatim>\<open>base_per_day * days * travelers\<close> first converts \<^verbatim>\<open>days\<close> for the left
  product, which may overflow, and then raises \<^verbatim>\<open>TypeError\<close> at the right one.
  A failure of the generative call, of reading its text or of the decoding is
  answered with a \<^verbatim>\<open>continue\<close> reply; what follows the \<^verbatim>\<open>try\<close> is not guarded.
\<close>

definition chat_generate_and_save ::
  "env \<Rightarrow> store \<Rightarrow> string \<Rightarrow> TripRequest \<Rightarrow> (error + chat_reply) \<times> store" where
  "chat_generate_and_save env st username trip_req =
     (case TripRequest.travelers trip_req of
        None \<Rightarrow>
          (case int_to_float (TripRequest.days trip_req) of
             Inl e \<Rightarrow> (Inl e, st)
           | Inr f \<Rightarrow> (Inl TypeError, st))
      | Some n_travelers \<Rightarrow>
          (case estimate_budget (TripRequest.days trip_req) n_travelers
                  (fstr_opt_str (TripRequest.budget_level trip_req)) of
             Inl e \<Rightarrow> (Inl e, st)
           | Inr (tot, per_person) \<Rightarrow>
               let (la, lo) = fst (geocode_destination env (TripRequest.destination trip_req));
                   weather = fst (fetch_weather env la lo);
                   trouble =
                     Continue (JStr (''I'' @ [CHR 0x27] @ ''m having trouble generating the plan ''
                       @ ''right now. Please try again or provide more specific details.''))
               in (case generate_content env (build_prompt trip_req) of
                     GenText text \<Rightarrow>
                       let stripped = strip text;
                           clean_text = (if startswith stripped ''```json''
                                         then drop 7 (take (length stripped - 3) stripped)
                                         else stripped)
                       in (case json_loads env clean_text of
                             None \<Rightarrow> (Inr trouble, st)
                           | Some data \<Rightarrow>
                               (case setdefault data ''budget_level''
                                       (str_or_none (TripRequest.budget_level trip_req)) of
                                  Inl e \<Rightarrow> (Inl e, st)
                                | Inr kvs \<Rightarrow>
                                    (case TripPlan_validate env
                                            (setitem ''weather_summary'' (str_or_none weather)
                                            (setitem ''lng'' (float_or_none lo)
                                            (setitem ''lat'' (float_or_none la)
                                            (setitem ''estimated_per_person'' (JFloat per_person)
                                            (setitem ''estimated_total_budget'' (JFloat tot)
                                               kvs))))) of
                                       Inl e \<Rightarrow> (Inl e, st)
                                     | Inr trip_plan \<Rightarrow>
                                         (case save_trip env st
                                                 (db_trip_of (Some username) trip_req
                                                    n_travelers trip_plan None)
                                                 trip_plan of
                                            (Inl e, st') \<Rightarrow> (Inl e, st')
                                          | (Inr saved, st') \<Rightarrow>
                                              (Inr (PlanReady
                                                 (''I'' @ [CHR 0x27] @ ''ve planned a ''
                                                  @ str_int (TripPlan.days saved)
                                                  @ ''-day trip to ''
                                                  @ TripPlan.destination saved
                                                  @ '' for you!'')
                                                 saved),
                                               st')))))
                   | _ \<Rightarrow> (Inr trouble, st))))"

definition chat_interaction ::
  "env \<Rightarrow> store \<Rightarrow> string \<Rightarrow> string \<Rightarrow> (string \<times> json) list list
     \<Rightarrow> (error + chat_reply) \<times> store" where
  "chat_interaction env st username message history =
     (let analysis = analyze_chat_intent env message history in
      case get analysis ''action'' JNull of
        Inl e \<Rightarrow> (Inl e, st)
      | Inr action \<Rightarrow>
          if action = JStr ''plan_ready'' then
            (case andthen (get analysis ''params'' (JObj []))
                          (request_of_params env username) of
               Inl e \<Rightarrow> (Inl e, st)
             | Inr trip_req \<Rightarrow>
                 if TripRequest.destination trip_req = [] then
                   (Inr (Continue (JStr (''I couldn'' @ [CHR 0x27]
                      @ ''t detect a destination. Where would you like to go?''))), st)
                 else chat_generate_and_save env st username trip_req)
          else
            (case get analysis ''response'' (JStr ''Can you tell me more?'') of
               Inl e \<Rightarrow> (Inl e, st)
             | Inr response \<Rightarrow> (Inr (Continue response), st)))"

section \<open>Conditions of the storage round trip\<close>

text \<open>
  A list of strings survives the newline-joined column when no element holds a
  newline and the list is not the one-element list of the empty string (which is
  stored as the empty text, as the empty list is). The committed rows are
  consistent when every Day row belongs to a Trip row.
\<close>

definition newline_free :: "string list \<Rightarrow> bool" where
  "newline_free xs = ((\<forall>x \<in> set xs. CHR 0x0A \<notin> set x) \<and> xs \<noteq> [[]])"

definition store_consistent :: "store \<Rightarrow> bool" where
  "store_consistent st =
     (\<forall>d \<in> set (day_rows st). \<exists>t \<in> set (trips st). Trip.id t = Some (trip_id d))"

section \<open>A JSON decoder and an environment for the examples\<close>

text \<open>
  The theorems below hold for every decoder. The examples need one: \<open>json_decode\<close>
  reads JSON text over ASCII as \<^verbatim>\<open>json.loads\<close> does (objects, arrays, strings
  with their escapes, numbers, \<^verbatim>\<open>true\<close>, \<^verbatim>\<open>false\<close>, \<^verbatim>\<open>null\<close>; a repeated key
  keeps its last value). It rejects \<^verbatim>\<open>\u\<close> escapes beyond ASCII and
  the non-standard \<^verbatim>\<open>NaN\<close> and \<^verbatim>\<open>Infinity\<close>, which the examples do not use.
  The recursion on nested values is bounded by fuel, two units per character.
\<close>

definition json_ws :: "char \<Rightarrow> bool" where
  "json_ws c = (c \<in> set [CHR '' '', CHR 0x09, CHR 0x0A, CHR 0x0D])"

definition is_digit :: "char \<Rightarrow> bool" where
  "is_digit c = (48 \<le> (of_char c :: nat) \<and> (of_char c :: nat) \<le> 57)"

definition digits_value :: "string \<Rightarrow> int" where
  "digits_value ds = foldl (\<lambda>a c. 10 * a + (int (of_char c) - 48)) 0 ds"

definition hex_value :: "char \<Rightarrow> nat option" where
  "hex_value c =
     (let n = (of_char c :: nat)
      in if 48 \<le> n \<and> n \<le> 57 then Some (n - 48)
         else if 65 \<le> n \<and> n \<le> 70 then Some (n - 55)
         else if 97 \<le> n \<and> n \<le> 102 then Some (n - 87)
         else None)"

definition unescape :: "char \<Rightarrow> char option" where
  "unescape e =
     (if e = CHR 0x22 then Some (CHR 0x22)
      else if e = CHR 0x5C then Some (CHR 0x5C)
      else if e = CHR ''/'' then Some (CHR ''/'')
      else if e = CHR ''b'' then Some (CHR 0x08)
      else if e = CHR ''f'' then Some (CHR 0x0C)
      else if e = CHR ''n'' then Some (CHR 0x0A)
      else if e = CHR ''r'' then Some (CHR 0x0D)
      else if e = CHR ''t'' then Some (CHR 0x09)
      else None)"

text \<open>The characters of a string literal after its opening quote, and the rest.\<close>

fun string_body :: "string \<Rightarrow> (string \<times> string) option" where
  "string_body [] = None"
| "string_body (c # cs) =
     (if c = CHR 0x22 then Some ([], cs)
      else if c = CHR 0x5C then
        (case cs of
           [] \<Rightarrow> None
         | e # r \<Rightarrow>
             if e = CHR ''u'' then
               (case r of
                  a # b # c' # d # r' \<Rightarrow>
                    (case (hex_value a, hex_value b, hex_value c', hex_value d) of
                       (Some h3, Some h2, Some h1, Some h0) \<Rightarrow>
                         let n = ((h3 * 16 + h2) * 16 + h1) * 16 + h0
                         in if n < 128 then
                              (case string_body r' of
                                 None \<Rightarrow> None
                               | Some (s, rest) \<Rightarrow> Some (char_of n # s, rest))
                            else None
                     | _ \<Rightarrow> None)
                | _ \<Rightarrow> None)
             else
               (case unescape e of
                  None \<Rightarrow> None
                | Some ch \<Rightarrow>
                    (case string_body r of
                       None \<Rightarrow> None
                     | Some (s, rest) \<Rightarrow> Some (ch # s, rest))))
      else if (of_char c :: nat) < 32 then None
      else (case string_body cs of
              None \<Rightarrow> None
            | Some (s, rest) \<Rightarrow> Some (c # s, rest)))"

text \<open>A number: integer part, optional fraction, optional exponent.\<close>

definition number_tail :: "bool \<Rightarrow> string \<Rightarrow> string \<Rightarrow> (json \<times> string) option" where
  "number_tail neg ip r0 =
     (let sgn = (if neg then - 1 else 1 :: int);
          (fp, r1) = (case r0 of
                        c # cs \<Rightarrow> if c = CHR ''.'' then (Some (takeWhile is_digit cs),
                                                             dropWhile is_digit cs)
                                   else (None, r0)
                      | [] \<Rightarrow> (None, r0));
          (ex, r2) = (case r1 of
                        c # cs \<Rightarrow>
                          if c = CHR ''e'' \<or> c = CHR ''E'' then
                            (case cs of
                               s # ds \<Rightarrow>
                                 if s = CHR ''-'' then
                                   (Some (True, takeWhile is_digit ds), dropWhile is_digit ds)
                                 else if s = CHR ''+'' then
                                   (Some (False, takeWhile is_digit ds), dropWhile is_digit ds)
                                 else (Some (False, takeWhile is_digit cs), dropWhile is_digit cs)
                             | [] \<Rightarrow> (Some (False, []), []))
                          else (None, r1)
                      | [] \<Rightarrow> (None, r1))
      in if fp = Some [] \<or> (case ex of Some (b, ds) \<Rightarrow> ds = [] | None \<Rightarrow> False) then None
         else if fp = None \<and> ex = None then Some (JInt (sgn * digits_value ip), r2)
         else
           let frac = (case fp of None \<Rightarrow> [] | Some ds \<Rightarrow> ds);
               mant = of_int (sgn * digits_value (ip @ frac)) / 10 ^ length frac :: rat;
               scaled = (case ex of
                           None \<Rightarrow> mant
                         | Some (b, ds) \<Rightarrow>
                             if b then mant / 10 ^ nat (digits_value ds)
                             else mant * 10 ^ nat (digits_value ds))
           in Some (JFloat (fl scaled), r2))"

definition number :: "string \<Rightarrow> (json \<times> string) option" where
  "number s =
     (let neg = (case s of c # cs \<Rightarrow> c = CHR ''-'' | [] \<Rightarrow> False);
          s1 = (if neg then tl s else s);
          ip = takeWhile is_digit s1
      in if ip = [] \<or> (hd ip = CHR ''0'' \<and> length ip > 1) then None
         else number_tail neg ip (dropWhile is_digit s1))"

fun json_value :: "nat \<Rightarrow> string \<Rightarrow> (json \<times> string) option"
  and json_elements :: "nat \<Rightarrow> json list \<Rightarrow> string \<Rightarrow> (json \<times> string) option"
  and json_members :: "nat \<Rightarrow> (string \<times> json) list \<Rightarrow> string \<Rightarrow> (json \<times> string) option"
where
  "json_value 0 s = None"
| "json_value (Suc n) s =
     (case dropWhile json_ws s of
        [] \<Rightarrow> None
      | c # cs \<Rightarrow>
          if c = CHR ''{'' then
            (case dropWhile json_ws cs of
               [] \<Rightarrow> None
             | c' # cs' \<Rightarrow> if c' = CHR ''}'' then Some (JObj [], cs') else json_members n [] cs)
          else if c = CHR ''['' then
            (case dropWhile json_ws cs of
               [] \<Rightarrow> None
             | c' # cs' \<Rightarrow> if c' = CHR '']'' then Some (JArr [], cs') else json_elements n [] cs)
          else if c = CHR 0x22 then
            (case string_body cs of None \<Rightarrow> None | Some (str, r) \<Rightarrow> Some (JStr str, r))
          else if take 4 (c # cs) = ''true'' then Some (JBool True, drop 4 (c # cs))
          else if take 5 (c # cs) = ''false'' then Some (JBool False, drop 5 (c # cs))
          else if take 4 (c # cs) = ''null'' then Some (JNull, drop 4 (c # cs))
          else number (c # cs))"
| "json_elements 0 acc s = None"
| "json_elements (Suc n) acc s =
     (case json_value n s of
        None \<Rightarrow> None
      | Some (v, r) \<Rightarrow>
          (case dropWhile json_ws r of
             [] \<Rightarrow> None
           | c # cs \<Rightarrow>
               if c = CHR '','' then json_elements n (acc @ [v]) cs
               else if c = CHR '']'' then Some (JArr (acc @ [v]), cs)
               else None))"
| "json_members 0 acc s = None"
| "json_members (Suc n) acc s =
     (case dropWhile json_ws s of
        [] \<Rightarrow> None
      | q # s1 \<Rightarrow>
          if q \<noteq> CHR 0x22 then None
          else
            (case string_body s1 of
               None \<Rightarrow> None
             | Some (k, s2) \<Rightarrow>
                 (case dropWhile json_ws s2 of
                    [] \<Rightarrow> None
                  | colon # s3 \<Rightarrow>
                      if colon \<noteq> CHR '':'' then None
                      else
                        (case json_value n s3 of
                           None \<Rightarrow> None
                         | Some (v, r) \<Rightarrow>
                             (case dropWhile json_ws r of
                                [] \<Rightarrow> None
                              | c # cs \<Rightarrow>
                                  if c = CHR '','' then json_members n (AList.update k v acc) cs
                                  else if c = CHR ''}'' then
                                    Some (JObj (AList.update k v acc), cs)
                                  else None)))))"

definition json_decode :: "string \<Rightarrow> json option" where
  "json_decode s =
     (case json_value (2 * length s + 2) s of
        None \<Rightarrow> None
      | Some (v, r) \<Rightarrow> if dropWhile json_ws r = [] then Some v else None)"

text \<open>
  \<open>offline\<close>: a deployment with no credential set, no network, no generative
  provider, and a storage engine that accepts every commit. The examples change
  the fields they are about. The weather adapter is never configured in them and
  no example plan carries a budget breakdown, so the last six fields are never
  consulted: the conversions refuse, the renderings are empty.
\<close>

definition offline :: env where
  "offline =
     \<lparr> GEMINI_API_KEY = None, MAPBOX_ACCESS_TOKEN = None, WEATHER_API_KEY = None,
       SERPAPI_API_KEY = None,
       generate_content = (\<lambda>prompt. GenRaises),
       http = (\<lambda>call. Inl ConnectionError),
       commit_succeeds = (\<lambda>n. True),
       json_loads = json_decode,
       json_dumps = (\<lambda>v. []),
       float_of_str = (\<lambda>s. None),
       str_of = (\<lambda>v. []),
       format_1f = (\<lambda>f. []),
       coerce_int = (\<lambda>v. None),
       coerce_float = (\<lambda>v. None),
       coerce_str = (\<lambda>v. None) \<rparr>"

definition empty_store :: store where
  "empty_store = \<lparr> trips = [], day_rows = [] \<rparr>"

text \<open>
  The request of the end-to-end example, a storage engine that refuses the second
  commit of a request, and a provider whose reply holds no JSON.
\<close>

definition kyoto_request :: TripRequest where
  "kyoto_request =
     \<lparr> TripRequest.origin = None, destination = ''Kyoto'', days = 3,
       budget_level = Some ''medium'', travelers = Some 2, travel_month = None,
       preferences = None, notes = None, user_id = None \<rparr>"

definition second_commit_fails :: env where
  "second_commit_fails = offline\<lparr>commit_succeeds := (\<lambda>n. n = 0)\<rparr>"

definition malformed_reply :: env where
  "malformed_reply =
     offline\<lparr>GEMINI_API_KEY := Some ''key'',
             generate_content := (\<lambda>prompt. GenText ''Here is your plan: {Kyoto, 3 days}'')\<rparr>"

text \<open>
  Two deployments with every enrichment credential set: in one each network call
  raises, in the other each call is answered with a body of the wrong shape.
\<close>

definition network_down :: env where
  "network_down =
     offline\<lparr>SERPAPI_API_KEY := Some ''key'', MAPBOX_ACCESS_TOKEN := Some ''token'',
             WEATHER_API_KEY := Some ''key''\<rparr>"

definition malformed_bodies :: env where
  "malformed_bodies = network_down\<lparr>http := (\<lambda>call. Inr (JArr [JInt 1]))\<rparr>"

text \<open>
  A request for one day in Paris, and a provider whose itinerary has a tip that
  holds a newline.
\<close>

definition paris_request :: TripRequest where
  "paris_request =
     \<lparr> TripRequest.origin = Some ''Rome'', destination = ''Paris'', days = 1,
       budget_level = Some ''low'', travelers = Some 1, travel_month = None,
       preferences = None, notes = None, user_id = None \<rparr>"

definition paris_reply :: string where
  \<open>paris_reply =
     ''{"destination": "Paris", "days": 1, "overview": "A day in Paris", ''
     @ ''"daily_plan": [{"day": 1, "title": "Louvre", "summary": "Museum day", ''
     @ ''"places": ["Louvre"]}], ''
     @ ''"tips": ["Book ahead'' @ [CHR 0x5C] @ ''nCarry water"]}''\<close>

definition newline_in_tip :: env where
  "newline_in_tip =
     offline\<lparr>GEMINI_API_KEY := Some ''key'',
             generate_content := (\<lambda>prompt. GenText paris_reply)\<rparr>"

text \<open>
  A deployment whose generative provider raises at every call, and one whose
  provider answers the intent prompt with \<^verbatim>\<open>plan_ready\<close> and parameters that
  name neither travelers nor budget level, and every other prompt with the Paris
  itinerary.
\<close>

definition provider_down :: env where
  "provider_down = offline\<lparr>GEMINI_API_KEY := Some ''key''\<rparr>"

definition plan_ready_reply :: string where
  \<open>plan_ready_reply =
     ''{"action": "plan_ready", "params": ''
     @ ''{"origin": "Rome", "destination": "Paris", "days": 1}}''\<close>

definition eager_resolver :: env where
  "eager_resolver =
     offline\<lparr>GEMINI_API_KEY := Some ''key'',
             generate_content :=
               (\<lambda>prompt. if prompt = intent_prompt
                                        (conversation_text offline ''One day in Paris, from Rome'' [])
                          then GenText plan_ready_reply
                          else GenText paris_reply)\<rparr>"

section \<open>Properties of floating point\<close>

lemma pow2_powi: "pow2 e = 2 powi e"
  by (simp add: pow2_def power_int_def inverse_eq_divide power_one_over)

lemma pow2_pos: "0 < pow2 e"
  by (simp add: pow2_powi)

lemma round_half_even_int: "round_half_even (of_int j) = j"
  by (simp add: round_half_even_def)

lemma round_half_even_ge: "\<lfloor>y\<rfloor> \<le> round_half_even y"
  by (simp add: round_half_even_def Let_def)

lemma round_double_minus: "round_double (- x) = - round_double x"
  by (simp add: round_double_def Let_def)

lemma ilog2_int: "0 < n \<Longrightarrow> ilog2 (of_int n) = bitlen n - 1"
proof -
  assume "0 < n"
  then have "(1::rat) \<le> of_int n" by simp
  then show ?thesis by (simp add: ilog2_def)
qed

lemma round_double_representable:
  assumes "0 < m" and "m < 2 ^ 53"
  shows "round_double (of_int (m * 2 ^ k)) = of_int (m * 2 ^ k)"
proof -
  let ?n = "m * 2 ^ k"
  have npos: "0 < ?n" using assms(1) by simp
  have bl: "bitlen ?n = bitlen m + int k" using assms(1) by simp
  have b1: "1 \<le> bitlen m"
    using assms(1) bitlen_ge_iff_power [of 1 m] by simp
  have b53: "bitlen m \<le> 53"
    using assms(2) bitlen_le_iff_power [of m 53] by simp
  define j where "j = nat (53 - bitlen m)"
  have j: "int j = 53 - bitlen m" using b53 by (simp add: j_def)
  have rpos: "(0::rat) < of_int ?n" using npos by (simp only: of_int_0_less_iff)
  have e: "max (ilog2 \<bar>of_int ?n\<bar>) (- 1022) - 52 = int k - int j"
  proof -
    have "\<bar>of_int ?n :: rat\<bar> = of_int ?n" using rpos by (rule abs_of_pos)
    then have "ilog2 \<bar>of_int ?n\<bar> = bitlen m + int k - 1"
      using ilog2_int [OF npos] bl by simp
    then show ?thesis using b1 j by simp
  qed
  have q: "of_int ?n / (2 powi (int k - int j) :: rat) = of_int (m * 2 ^ j)"
    by (simp add: power_int_diff)
  have r: "(of_int (m * 2 ^ j) :: rat) * 2 powi (int k - int j) = of_int ?n"
    by (simp add: power_int_diff)
  have nz: "(of_int ?n :: rat) \<noteq> 0" using rpos by (rule less_imp_neq [symmetric])
  have ab: "\<bar>of_int ?n :: rat\<bar> = of_int ?n" using rpos by (rule abs_of_pos)
  have sg: "sgn (of_int ?n :: rat) = 1" using rpos by (rule sgn_pos)
  show ?thesis
    unfolding round_double_def Let_def e pow2_powi
    using nz by (simp only: ab q round_half_even_int sg r if_False mult_1)
qed

lemma round_double_int:
  assumes "\<bar>n\<bar> < 2 ^ 53"
  shows "round_double (of_int n) = of_int n"
proof -
  consider "n = 0" | "0 < n" | "n < 0" by linarith
  then show ?thesis
  proof cases
    case 1
    then show ?thesis by (simp add: round_double_def)
  next
    case 2
    with assms show ?thesis
      using round_double_representable [of n 0] by simp
  next
    case 3
    with assms have "round_double (of_int (- n)) = of_int (- n)"
      using round_double_representable [of "- n" 0] by simp
    then show ?thesis
      using round_double_minus [of "of_int n"] by simp
  qed
qed

lemma fl_int:
  assumes "\<bar>n\<bar> < 2 ^ 53"
  shows "fl (of_int n) = Finite (of_int n)"
proof -
  have "\<bar>of_int n :: rat\<bar> = of_int \<bar>n\<bar>" by simp
  then have f: "\<lfloor>\<bar>of_int n :: rat\<bar>\<rfloor> = \<bar>n\<bar>" by (simp only: floor_of_int)
  have "\<bar>n\<bar> < (2 ^ 1024 :: int)" using assms by (rule less_trans) simp
  then have "\<not> 2 ^ 1024 \<le> \<lfloor>\<bar>of_int n :: rat\<bar>\<rfloor>" unfolding f by simp
  then show ?thesis
    by (simp add: fl_def round_double_int [OF assms] Let_def)
qed

lemma round_double_lower:
  assumes "1 \<le> x"
  shows "2 powi (ilog2 x) \<le> round_double x"
proof -
  define n where "n = \<lfloor>x\<rfloor>"
  have npos: "0 < n" using assms by (simp add: n_def)
  define e where "e = bitlen n - 1"
  have il: "ilog2 x = e" using assms by (simp add: ilog2_def n_def e_def)
  have e0: "0 \<le> e"
    using npos bitlen_ge_iff_power [of 1 n] by (simp add: e_def)
  have "2 ^ nat e \<le> n"
    using bitlen_bounds [OF npos] by (simp add: e_def)
  then have "(of_int (2 ^ nat e) :: rat) \<le> of_int n" by (simp only: of_int_le_iff)
  also have "\<dots> \<le> x" by (simp add: n_def)
  finally have lo: "(2 powi e :: rat) \<le> x" using e0 by (simp add: power_int_def)
  define q :: rat where "q = 2 powi (e - 52)"
  have qpos: "0 < q" by (simp add: q_def)
  have "(2 ^ 52 :: rat) = 2 powi e / q"
    by (simp add: q_def power_int_diff)
  also have "\<dots> \<le> x / q" using lo qpos by (simp add: divide_right_mono)
  finally have "(of_int (2 ^ 52) :: rat) \<le> x / q" by simp
  then have "2 ^ 52 \<le> \<lfloor>x / q\<rfloor>" by (simp only: le_floor_iff)
  then have "2 ^ 52 \<le> round_half_even (x / q)"
    using round_half_even_ge [of "x / q"] by linarith
  then have "(of_int (2 ^ 52) :: rat) \<le> of_int (round_half_even (x / q))"
    by (simp only: of_int_le_iff)
  then have "(2 ^ 52 :: rat) * q \<le> of_int (round_half_even (x / q)) * q"
    using qpos by (simp add: mult_right_mono)
  moreover have "(2 ^ 52 :: rat) * q = 2 powi e"
    by (simp add: q_def power_int_diff)
  moreover have "round_double x = of_int (round_half_even (x / q)) * q"
    using assms e0 by (simp add: round_double_def Let_def il pow2_powi q_def)
  ultimately show ?thesis using il by simp
qed

lemma fl_overflow:
  assumes "2 ^ 1024 \<le> x"
  shows "fl x = PosInf"
proof -
  have x1: "1 \<le> x" using assms by (rule order_trans [rotated]) simp
  define n where "n = \<lfloor>x\<rfloor>"
  have "(of_int (2 ^ 1024) :: rat) \<le> x" using assms by simp
  then have n: "2 ^ 1024 \<le> n" unfolding n_def by (simp only: le_floor_iff)
  then have "1025 \<le> bitlen n"
    using bitlen_ge_iff_power [of 1025 n] by simp
  then have "1024 \<le> ilog2 x" using x1 by (simp add: ilog2_def n_def)
  then have "(2 powi 1024 :: rat) \<le> 2 powi (ilog2 x)"
    by (intro power_int_increasing) simp_all
  also have "\<dots> \<le> round_double x" using x1 by (rule round_double_lower)
  finally have "(of_int (2 ^ 1024) :: rat) \<le> \<bar>round_double x\<bar>" by simp
  then have "2 ^ 1024 \<le> \<lfloor>\<bar>round_double x\<bar>\<rfloor>" by (simp only: le_floor_iff)
  moreover have "0 < x" using x1 by simp
  ultimately show ?thesis by (simp add: fl_def Let_def)
qed

lemma fl_positive_int:
  assumes "1 \<le> n"
  shows "fl (of_int n) \<noteq> Finite 0"
proof -
  have "(1::rat) \<le> of_int n" using assms by simp
  then have "2 powi (ilog2 (of_int n)) \<le> round_double (of_int n)"
    by (rule round_double_lower)
  moreover have "(0::rat) < 2 powi (ilog2 (of_int n))" by simp
  ultimately have "round_double (of_int n) \<noteq> 0" by linarith
  then show ?thesis by (simp add: fl_def Let_def)
qed

lemma int_to_float_exact:
  "\<bar>i\<bar> < 2 ^ 53 \<Longrightarrow> int_to_float i = Inr (Finite (of_int i))"
  by (simp add: int_to_float_def fl_int)

lemma mul_int_exact:
  assumes "\<bar>i\<bar> < 2 ^ 53" and "\<bar>a * i\<bar> < 2 ^ 53"
  shows "mul_int (Finite (of_int a)) i = Inr (Finite (of_int (a * i)))"
proof -
  have "fl (of_int a * of_int i) = fl (of_int (a * i))" by simp
  also have "\<dots> = Finite (of_int (a * i))" using assms(2) by (rule fl_int)
  finally show ?thesis
    using assms(1) by (simp add: mul_int_def andthen_def int_to_float_exact)
qed

lemma truediv_exact:
  assumes "1 \<le> i" and "\<bar>i\<bar> < 2 ^ 53" and "\<bar>q\<bar> < 2 ^ 53"
  shows "truediv (Finite (of_int (q * i))) i = Inr (Finite (of_int q))"
proof -
  have "(of_int (q * i) :: rat) / of_int i = of_int q" using assms(1) by simp
  then have "fl (of_int (q * i) / of_int i) = Finite (of_int q)"
    using assms(3) by (simp only: fl_int)
  moreover have "(of_int i :: rat) \<noteq> 0" using assms(1) by simp
  ultimately show ?thesis
    using assms(2) by (simp add: truediv_def andthen_def int_to_float_exact)
qed

lemma base_per_day_cases:
  "(case map_of [(''low'', Finite 40), (''medium'', Finite 80), (''high'', Finite 150)] level of
      Some r \<Rightarrow> r | None \<Rightarrow> Finite 80)
   = Finite (of_int (if level = ''low'' then 40 else if level = ''medium'' then 80
                     else if level = ''high'' then 150 else 80))"
  by simp



lemma int_to_float_overflow: "2 ^ 1024 \<le> i \<Longrightarrow> int_to_float i = Inl OverflowError"
proof -
  assume "2 ^ 1024 \<le> i"
  then have "(of_int (2 ^ 1024) :: rat) \<le> of_int i" by (simp only: of_int_le_iff)
  then have "fl (of_int i) = PosInf" by (intro fl_overflow) simp
  then show ?thesis by (simp add: int_to_float_def)
qed

lemma estimate_budget_kyoto: "estimate_budget 3 2 ''medium'' = Inr (Finite 480, Finite 240)"
  using mul_int_exact [of 3 80] mul_int_exact [of 2 240] truediv_exact [of 2 240]
  by (simp add: estimate_budget_def andthen_def)

section \<open>Properties of the budget estimator\<close>




text \<open>
  C10, as stated, fails in floating point: with zero travelers, a day count
  beyond the range of a double raises \<^verbatim>\<open>OverflowError\<close>, and a day count whose
  product with the rate overflows to infinity gives (nan, nan), not (0, 0).
\<close>

theorem estimate_budget_overflow_and_nan:
  "estimate_budget (10 ^ 400) 0 ''low'' = Inl OverflowError
   \<and> estimate_budget (2 ^ 1023) 0 ''low'' = Inr (NaN, NaN)"
proof -
  have "int_to_float (10 ^ 400) = Inl OverflowError"
    by (rule int_to_float_overflow) simp
  then have a: "estimate_budget (10 ^ 400) 0 ''low'' = Inl OverflowError"
    by (simp add: estimate_budget_def mul_int_def andthen_def)
  have "round_double (of_int (1 * 2 ^ 1023)) = of_int (1 * 2 ^ 1023)"
    by (rule round_double_representable) simp_all
  then have "fl (of_int (2 ^ 1023)) = Finite (of_int (2 ^ 1023))"
    by (simp add: fl_def)
  then have i: "int_to_float (2 ^ 1023) = Inr (Finite (2 ^ 1023))"
    by (simp add: int_to_float_def)
  have "fl (40 * 2 ^ 1023) = PosInf"
    by (rule fl_overflow) simp
  then have m1: "mul_int (Finite 40) (2 ^ 1023) = Inr PosInf"
    using i by (simp add: mul_int_def andthen_def)
  have m2: "mul_int PosInf 0 = Inr NaN"
    using int_to_float_exact [of 0] by (simp add: mul_int_def andthen_def)
  have m3: "truediv NaN 1 = Inr NaN"
    using int_to_float_exact [of 1] by (simp add: truediv_def andthen_def)
  have b: "estimate_budget (2 ^ 1023) 0 ''low'' = Inr (NaN, NaN)"
    using m1 m2 m3 by (simp add: estimate_budget_def andthen_def)
  show ?thesis using a b by simp
qed

text \<open>
  C10, amended. \<open>estimate_budget\<close> never divides by zero, whatever the integers:
  the divisor is \<open>max travelers 1\<close>, whose float is not zero, so the only
  exception it can raise is \<^verbatim>\<open>OverflowError\<close>, for an argument beyond the range
  of a double. With zero travelers and 150 * |days| below \<open>2 ^ 53\<close> it returns
  (0, 0).
\<close>

theorem estimate_budget_only_overflows:
  "(estimate_budget d t level = Inl e \<longrightarrow> e = OverflowError)
   \<and> (\<bar>d\<bar> * 150 < 2 ^ 53 \<longrightarrow> estimate_budget d 0 level = Inr (Finite 0, Finite 0))"
proof (intro conjI impI)
  assume "estimate_budget d t level = Inl e"
  moreover have "fl (of_int (max t 1)) \<noteq> Finite 0"
    by (rule fl_positive_int) simp
  ultimately show "e = OverflowError"
    unfolding estimate_budget_def Let_def mul_int_def truediv_def int_to_float_def andthen_def
    by (auto split: sum.splits pyfloat.splits if_splits)
next
  assume b: "\<bar>d\<bar> * 150 < 2 ^ 53"
  define rate :: int where
    "rate = (if level = ''low'' then 40 else if level = ''medium'' then 80
             else if level = ''high'' then 150 else 80)"
  have r: "0 < rate" "rate \<le> 150" by (simp_all add: rate_def)
  have d: "\<bar>d\<bar> < 2 ^ 53" using b by linarith
  have "\<bar>rate * d\<bar> = rate * \<bar>d\<bar>" using r(1) by (simp add: abs_mult)
  also have "\<dots> \<le> 150 * \<bar>d\<bar>" using r(2) by (intro mult_right_mono) simp_all
  finally have rd: "\<bar>rate * d\<bar> < 2 ^ 53" using b by linarith
  have m1: "mul_int (Finite (of_int rate)) d = Inr (Finite (of_int (rate * d)))"
    using d rd by (rule mul_int_exact)
  have m2: "mul_int (Finite (of_int (rate * d))) 0 = Inr (Finite (of_int (rate * d * 0)))"
    by (rule mul_int_exact) simp_all
  have m3: "truediv (Finite (of_int (0 * 1))) 1 = Inr (Finite (of_int 0))"
    by (rule truediv_exact) simp_all
  show "estimate_budget d 0 level = Inr (Finite 0, Finite 0)"
    unfolding estimate_budget_def base_per_day_cases Let_def rate_def [symmetric]
    using m1 m2 m3 by (simp add: andthen_def)
qed

theorem estimate_budget_only_overflows_witness:
  "estimate_budget (- 3) 0 ''high'' = Inr (Finite 0, Finite 0)
   \<and> estimate_budget (10 ^ 400) 2 ''low'' = Inl OverflowError"
proof -
  have "int_to_float (10 ^ 400) = Inl OverflowError"
    by (rule int_to_float_overflow) simp
  then have a: "estimate_budget (10 ^ 400) 2 ''low'' = Inl OverflowError"
    by (simp add: estimate_budget_def mul_int_def andthen_def)
  from estimate_budget_only_overflows [of "- 3" 0 "''high''" OverflowError] a
  show ?thesis by simp
qed

section \<open>Properties of persistence\<close>

lemma save_trip_ok:
  assumes "commit_succeeds env 0" and "commit_succeeds env 1"
  shows "save_trip env st db_trip plan =
           (let tid = fresh_id (map Trip.id (trips st)) in
            (Inr (plan\<lparr>TripPlan.id := Some tid\<rparr>),
             \<lparr> trips = trips st @ [db_trip\<lparr>Trip.id := Some tid\<rparr>],
               day_rows = day_rows st
                  @ number_days (fresh_id (map Day.id (day_rows st)))
                      (map (db_day tid) (daily_plan plan)) \<rparr>))"
  using assms by (simp add: save_trip_def commit_trip_def commit_days_def Let_def)

lemma save_trip_cases:
  "save_trip env st db_trip plan =
     (let tid = fresh_id (map Trip.id (trips st));
          st1 = st\<lparr>trips := trips st @ [db_trip\<lparr>Trip.id := Some tid\<rparr>]\<rparr>
      in if \<not> commit_succeeds env 0 then (Inl OperationalError, st)
         else if \<not> commit_succeeds env 1 then (Inl OperationalError, st1)
         else (Inr (plan\<lparr>TripPlan.id := Some tid\<rparr>),
               st1\<lparr>day_rows := day_rows st
                  @ number_days (fresh_id (map Day.id (day_rows st)))
                      (map (db_day tid) (daily_plan plan))\<rparr>))"
  by (simp add: save_trip_def commit_trip_def commit_days_def Let_def)

lemma dummy_shape:
  "(\<exists>e. create_and_save_dummy_trip env st r = (Inl e, st)) \<or>
   (\<exists>db_trip plan. create_and_save_dummy_trip env st r = save_trip env st db_trip plan)"
  unfolding create_and_save_dummy_trip_def
  by (auto simp: Let_def split_beta split: sum.splits)

lemma enrich_shape:
  "(\<exists>e. enrich_and_save env st r data = (Inl e, st)) \<or>
   (\<exists>db_trip plan. enrich_and_save env st r data = save_trip env st db_trip plan)"
  unfolding enrich_and_save_def
  by (auto simp: Let_def split_beta split: sum.splits)

lemma plan_trip_shape:
  "(\<exists>e. plan_trip env st u r = (Inl e, st)) \<or>
   (\<exists>db_trip plan. plan_trip env st u r = save_trip env st db_trip plan)"
  unfolding plan_trip_def Let_def
  using dummy_shape enrich_shape
  by (auto split: gen_outcome.splits sum.splits)

lemma plan_trip_unconfigured:
  assumes "unset (GEMINI_API_KEY env)"
  shows "plan_trip env st u r
           = create_and_save_dummy_trip env st (r\<lparr>TripRequest.user_id := Some u\<rparr>)"
  using assms by (simp add: plan_trip_def)


lemma plan_trip_unconfigured_returns:
  assumes "unset (GEMINI_API_KEY env)" and "commit_succeeds env 0" and "commit_succeeds env 1"
      and "estimate_budget (TripRequest.days r) (int_or (TripRequest.travelers r) 1)
             (str_or (TripRequest.budget_level r) ''medium'') = Inr b"
  shows "\<exists>plan st'. plan_trip env st u r = (Inr plan, st')"
  using assms
  by (cases b)
     (simp add: plan_trip_unconfigured create_and_save_dummy_trip_def save_trip_ok
        Let_def split_beta)

lemma kyoto_estimate:
  "estimate_budget (TripRequest.days kyoto_request)
     (int_or (TripRequest.travelers kyoto_request) 1)
     (str_or (TripRequest.budget_level kyoto_request) ''medium'')
   = Inr (Finite 480, Finite 240)"
  by (simp add: kyoto_request_def int_or_def str_or_def estimate_budget_kyoto)


text \<open>
  C2, as stated, fails: the Trip row and the Day rows are written by two commits.
  With a storage engine that accepts the first commit and refuses the second,
  \<open>plan_trip\<close> raises, the Trip row stays behind without Day rows, and a later
  \<open>get_trip\<close> returns that trip with an empty daily plan.
\<close>

theorem plan_trip_second_commit_fails:
  "fst (plan_trip second_commit_fails empty_store ''alice'' kyoto_request) = Inl OperationalError
   \<and> map Trip.id (trips (snd (plan_trip second_commit_fails empty_store ''alice'' kyoto_request)))
       = [Some 1]
   \<and> day_rows (snd (plan_trip second_commit_fails empty_store ''alice'' kyoto_request)) = []
   \<and> map_sum (\<lambda>e. e) daily_plan
        (get_trip (snd (plan_trip second_commit_fails empty_store ''alice'' kyoto_request))
           1 ''alice'') = Inr []"
  by (simp add: plan_trip_unconfigured second_commit_fails_def offline_def unset_def
        create_and_save_dummy_trip_def save_trip_cases kyoto_request_def empty_store_def
        estimate_budget_kyoto int_or_def str_or_def Let_def split_beta
        geocode_destination_def fetch_weather_def fresh_id_def db_trip_of_def get_trip_def)


text \<open>
  C2, amended. Whatever \<open>plan_trip\<close> returns, the committed rows change in one of
  three ways. When it returns a plan: one Trip row with the plan's id is
  appended, and one Day row per DayPlan, in order, each with that trip id. When
  it raises: either nothing was written, or the first commit succeeded and the
  second failed, and then exactly the Trip row was appended, with no Day row.
\<close>

theorem plan_trip_two_commits:
  assumes "plan_trip env st u r = (res, st')"
  shows "case res of
           Inr plan \<Rightarrow>
             (\<exists>row tid k. TripPlan.id plan = Some tid \<and> Trip.id row = Some tid
                \<and> trips st' = trips st @ [row]
                \<and> day_rows st' = day_rows st @ number_days k (map (db_day tid) (daily_plan plan)))
         | Inl e \<Rightarrow>
             st' = st \<or>
             (e = OperationalError \<and> commit_succeeds env 0 \<and> \<not> commit_succeeds env 1
                \<and> (\<exists>row. trips st' = trips st @ [row]) \<and> day_rows st' = day_rows st)"
proof -
  consider (early) e where "plan_trip env st u r = (Inl e, st)"
    | (saved) db_trip plan where "plan_trip env st u r = save_trip env st db_trip plan"
    using plan_trip_shape by blast
  then show ?thesis
  proof cases
    case early
    with assms show ?thesis by auto
  next
    case saved
    with assms have "save_trip env st db_trip plan = (res, st')" by simp
    then show ?thesis
      by (auto simp: save_trip_cases Let_def split: if_splits)
  qed
qed

theorem plan_trip_two_commits_witness:
  "\<exists>plan st' row tid k.
      plan_trip offline empty_store ''alice'' kyoto_request = (Inr plan, st')
      \<and> TripPlan.id plan = Some tid \<and> Trip.id row = Some tid
      \<and> trips st' = trips empty_store @ [row]
      \<and> day_rows st' = day_rows empty_store
            @ number_days k (map (db_day tid) (daily_plan plan))"
proof -
  have "unset (GEMINI_API_KEY offline)" "commit_succeeds offline 0" "commit_succeeds offline 1"
    by (simp_all add: offline_def unset_def)
  then obtain plan st' where
    p: "plan_trip offline empty_store ''alice'' kyoto_request = (Inr plan, st')"
    using plan_trip_unconfigured_returns [OF _ _ _ kyoto_estimate] by blast
  from plan_trip_two_commits [OF p] p show ?thesis by auto
qed


section \<open>Properties of the orchestration\<close>

text \<open>
  C5. With no generative credential, and a storage engine that accepts the two
  commits, \<open>plan_trip\<close> on a request for Kyoto, 3 days, "medium", 2 travelers
  returns a plan with exactly 3 day entries, a total budget of 480 and 240 per
  person, whatever the other fields of the request and of the environment are.
\<close>

theorem plan_trip_kyoto_unconfigured:
  assumes "unset (GEMINI_API_KEY env)"
      and "commit_succeeds env 0" and "commit_succeeds env 1"
      and "TripRequest.destination request = ''Kyoto''"
      and "TripRequest.days request = 3"
      and "TripRequest.budget_level request = Some ''medium''"
      and "TripRequest.travelers request = Some 2"
  shows "\<exists>plan st'. plan_trip env st username request = (Inr plan, st')
           \<and> length (daily_plan plan) = 3
           \<and> TripPlan.estimated_total_budget plan = Some (Finite 480)
           \<and> TripPlan.estimated_per_person plan = Some (Finite 240)"
  using assms
  by (simp add: plan_trip_unconfigured create_and_save_dummy_trip_def save_trip_ok
        estimate_budget_kyoto int_or_def str_or_def Let_def split_beta)


theorem plan_trip_kyoto_unconfigured_witness:
  "\<exists>plan st'. plan_trip offline empty_store ''alice'' kyoto_request = (Inr plan, st')
           \<and> length (daily_plan plan) = 3
           \<and> TripPlan.estimated_total_budget plan = Some (Finite 480)
           \<and> TripPlan.estimated_per_person plan = Some (Finite 240)"
  using plan_trip_kyoto_unconfigured
          [where env = offline and request = kyoto_request and st = empty_store
             and username = "''alice''"]
  by (simp add: offline_def unset_def kyoto_request_def)


lemma extract_json_fails:
  assumes "json_loads env reply = None"
      and "str_find CHR ''{'' reply = -1
           \<or> str_rfind CHR ''}'' reply \<le> str_find CHR ''{'' reply
           \<or> json_loads env (slice reply (str_find CHR ''{'' reply)
                                  (str_rfind CHR ''}'' reply + 1)) = None"
  shows "extract_json env reply = Inl JSONDecodeError"
  using assms unfolding extract_json_def Let_def by auto

text \<open>
  C1, as stated, fails: on a reply that cannot be decoded, not even between its
  first and last brace, \<open>plan_trip\<close> raises the decoder's exception. It returns no
  plan and writes nothing.
\<close>

theorem plan_trip_malformed_reply:
  "extract_json malformed_reply ''Here is your plan: {Kyoto, 3 days}'' = Inl JSONDecodeError
   \<and> plan_trip malformed_reply empty_store ''alice'' kyoto_request
       = (Inl JSONDecodeError, empty_store)"
  by code_simp


text \<open>
  C1, amended. With a credential configured and a reply whose text cannot be
  decoded, neither as it is nor from its first opening brace to its last closing
  brace, \<open>plan_trip\<close> raises \<^verbatim>\<open>JSONDecodeError\<close> and leaves the store unchanged.
  The placeholder plan is what \<open>plan_trip\<close> returns when no credential is
  configured or the provider call itself raises.
\<close>

theorem plan_trip_undecodable_raises:
  "(\<not> unset (GEMINI_API_KEY env)
      \<and> generate_content env (build_prompt (r\<lparr>TripRequest.user_id := Some u\<rparr>)) = GenText t
      \<and> reply = (if t = [] then ''{}'' else t)
      \<and> json_loads env reply = None
      \<and> (str_find CHR ''{'' reply = -1
          \<or> str_rfind CHR ''}'' reply \<le> str_find CHR ''{'' reply
          \<or> json_loads env (slice reply (str_find CHR ''{'' reply)
                                 (str_rfind CHR ''}'' reply + 1)) = None)
     \<longrightarrow> plan_trip env st u r = (Inl JSONDecodeError, st))
   \<and> (unset (GEMINI_API_KEY env)
        \<or> generate_content env (build_prompt (r\<lparr>TripRequest.user_id := Some u\<rparr>)) = GenRaises
     \<longrightarrow> plan_trip env st u r
           = create_and_save_dummy_trip env st (r\<lparr>TripRequest.user_id := Some u\<rparr>))"
proof (intro conjI impI)
  assume a: "\<not> unset (GEMINI_API_KEY env)
      \<and> generate_content env (build_prompt (r\<lparr>TripRequest.user_id := Some u\<rparr>)) = GenText t
      \<and> reply = (if t = [] then ''{}'' else t)
      \<and> json_loads env reply = None
      \<and> (str_find CHR ''{'' reply = -1
          \<or> str_rfind CHR ''}'' reply \<le> str_find CHR ''{'' reply
          \<or> json_loads env (slice reply (str_find CHR ''{'' reply)
                                 (str_rfind CHR ''}'' reply + 1)) = None)"
  then have "extract_json env reply = Inl JSONDecodeError"
    using extract_json_fails [of env reply] by blast
  with a show "plan_trip env st u r = (Inl JSONDecodeError, st)"
    unfolding plan_trip_def Let_def by simp
next
  assume "unset (GEMINI_API_KEY env)
        \<or> generate_content env (build_prompt (r\<lparr>TripRequest.user_id := Some u\<rparr>)) = GenRaises"
  then show "plan_trip env st u r
           = create_and_save_dummy_trip env st (r\<lparr>TripRequest.user_id := Some u\<rparr>)"
    unfolding plan_trip_def Let_def by auto
qed

theorem plan_trip_undecodable_raises_witness:
  "plan_trip malformed_reply empty_store ''alice'' kyoto_request
       = (Inl JSONDecodeError, empty_store)
   \<and> plan_trip offline empty_store ''alice'' kyoto_request
       = create_and_save_dummy_trip offline empty_store
           (kyoto_request\<lparr>TripRequest.user_id := Some ''alice''\<rparr>)"
proof -
  let ?t = "''Here is your plan: {Kyoto, 3 days}''"
  have a: "\<not> unset (GEMINI_API_KEY malformed_reply)"
    by (simp add: malformed_reply_def unset_def)
  have b: "generate_content malformed_reply
             (build_prompt (kyoto_request\<lparr>TripRequest.user_id := Some ''alice''\<rparr>)) = GenText ?t"
    by (simp add: malformed_reply_def)
  have c: "json_loads malformed_reply ?t = None"
    by code_simp
  have d: "json_loads malformed_reply
             (slice ?t (str_find CHR ''{'' ?t) (str_rfind CHR ''}'' ?t + 1)) = None"
    by code_simp
  have e: "unset (GEMINI_API_KEY offline)"
    by (simp add: offline_def unset_def)
  from plan_trip_undecodable_raises
         [where env = malformed_reply and r = kyoto_request and u = "''alice''"
            and t = "?t" and reply = "?t" and st = empty_store] a b c d
  have "plan_trip malformed_reply empty_store ''alice'' kyoto_request
          = (Inl JSONDecodeError, empty_store)"
    by simp
  moreover from plan_trip_undecodable_raises
         [where env = offline and r = kyoto_request and u = "''alice''"
            and t = "?t" and reply = "?t" and st = empty_store] e
  have "plan_trip offline empty_store ''alice'' kyoto_request
          = create_and_save_dummy_trip offline empty_store
              (kyoto_request\<lparr>TripRequest.user_id := Some ''alice''\<rparr>)"
    by simp
  ultimately show ?thesis by simp
qed

section \<open>Properties of the generation response parsing\<close>

lemma str_find_absent: "c \<notin> set s \<Longrightarrow> str_find c s = -1"
  by (induction s) (auto simp: Let_def)

lemma str_find_ge: "str_find c s \<ge> -1"
  by (induction s) (auto simp: Let_def)

lemma str_find_first: "c \<notin> set pre \<Longrightarrow> str_find c (pre @ c # rest) = int (length pre)"
proof (induction pre)
  case Nil
  then show ?case by simp
next
  case (Cons x pre)
  then show ?case by (auto simp: Let_def)
qed

lemma str_rfind_last: "c \<notin> set post \<Longrightarrow> str_rfind c (xs @ c # post) = int (length xs)"
  using str_find_first [of c "rev post" "rev xs"]
  by (simp add: str_rfind_def Let_def)

lemma slice_middle: "slice (pre @ s @ post) (int (length pre)) (int (length pre + length s)) = s"
  by (simp add: slice_def)

lemma json_decode_fenced: "json_decode (CHR ''`'' # rest) = None"
  by (simp add: json_decode_def json_ws_def number_def is_digit_def)

text \<open>
  C7, as stated, fails for prose that holds a brace: the text from the first
  opening brace to the last closing brace then starts in the prose, and the
  second decoding raises.
\<close>

theorem extract_json_prose_with_brace:
  \<open>extract_json offline ''{"days": 2}'' = Inr (JObj [(''days'', JInt 2)])
   \<and> extract_json offline ''Plan {draft}: ```json\<newline>{"days": 2}\<newline>```''
       = Inl JSONDecodeError\<close>
  by code_simp

text \<open>
  C7, amended. Let a clean JSON object (a decodable text from an opening to a
  closing brace) be wrapped between a prefix that holds no opening brace and a
  suffix that holds no closing brace, such as the two fence markers, and let the
  wrapped text not be decodable as it is. Then parsing the wrapped text gives
  the object that parsing the clean text gives.
\<close>

theorem extract_json_wrapped:
  assumes "json_loads env (CHR ''{'' # body @ [CHR ''}'']) = Some v"
      and "CHR ''{'' \<notin> set pre" and "CHR ''}'' \<notin> set post"
      and "json_loads env (pre @ CHR ''{'' # body @ [CHR ''}''] @ post) = None"
  shows "extract_json env (pre @ CHR ''{'' # body @ [CHR ''}''] @ post) = Inr v
         \<and> extract_json env (CHR ''{'' # body @ [CHR ''}'']) = Inr v"
proof -
  let ?s = "CHR ''{'' # body @ [CHR ''}'']"
  let ?w = "pre @ CHR ''{'' # body @ [CHR ''}''] @ post"
  have start: "str_find CHR ''{'' ?w = int (length pre)"
    using assms(2) by (rule str_find_first)
  have "?w = (pre @ CHR ''{'' # body) @ CHR ''}'' # post" by simp
  then have "str_rfind CHR ''}'' ?w = int (length (pre @ CHR ''{'' # body))"
    using str_rfind_last [OF assms(3), of "pre @ CHR ''{'' # body"] by simp
  then have end': "str_rfind CHR ''}'' ?w = int (length pre) + int (length body) + 1"
    by simp
  have "slice ?w (int (length pre)) (int (length pre + length ?s)) = ?s"
    using slice_middle [of pre ?s post] by simp
  then have sl: "slice ?w (int (length pre)) (int (length pre) + int (length body) + 1 + 1) = ?s"
    by (simp add: add.commute add.left_commute)
  show ?thesis
    using assms(1,4) start end' sl by (simp add: extract_json_def Let_def)
qed

theorem extract_json_wrapped_witness:
  \<open>extract_json offline (''```json\<newline>'' @ CHR ''{'' # ''"days": 2'' @ [CHR ''}''] @ ''\<newline>```'')
     = Inr (JObj [(''days'', JInt 2)])
   \<and> extract_json offline (CHR ''{'' # ''"days": 2'' @ [CHR ''}'']) = Inr (JObj [(''days'', JInt 2)])\<close>
proof -
  have a: \<open>json_loads offline (CHR ''{'' # ''"days": 2'' @ [CHR ''}''])
             = Some (JObj [(''days'', JInt 2)])\<close>
    by code_simp
  have b: \<open>json_loads offline (''```json\<newline>'' @ CHR ''{'' # ''"days": 2'' @ [CHR ''}''] @ ''\<newline>```'')
             = None\<close>
    by (simp add: offline_def json_decode_fenced)
  have c: "CHR ''{'' \<notin> set ''```json\<newline>''" by simp
  have d: "CHR ''}'' \<notin> set ''\<newline>```''" by simp
  from extract_json_wrapped [OF a c d b] show ?thesis .
qed

section \<open>Properties of the provider adapters\<close>

text \<open>
  C9. Each of the five adapters, with its credential unset or empty, returns the
  empty result and attempts no network call. With the credential set it
  attempts exactly its one call, and when that call raises, or the body it
  returns makes the adapter's processing raise, the result is empty: no
  exception reaches the caller (the result is a plain value).
\<close>

theorem adapters_degrade:
  "(unset (SERPAPI_API_KEY env) \<longrightarrow>
      fetch_google_events env d = ([], []) \<and> fetch_hotels env d ci co = ([], [])
      \<and> fetch_restaurants env d = ([], []))
   \<and> (unset (MAPBOX_ACCESS_TOKEN env) \<longrightarrow> geocode_destination env d = ((None, None), []))
   \<and> (unset (WEATHER_API_KEY env) \<longrightarrow> fetch_weather env la lo = (None, []))
   \<and> (SERPAPI_API_KEY env = Some key \<and> key \<noteq> [] \<longrightarrow>
         snd (fetch_google_events env d) = [events_call key d]
         \<and> ((\<exists>e. http env (events_call key d) = Inl e
               \<or> (\<exists>body. http env (events_call key d) = Inr body
                          \<and> events_of_results body = Inl e))
              \<longrightarrow> fst (fetch_google_events env d) = [])
         \<and> snd (fetch_hotels env d ci co) = [hotels_call key d ci co]
         \<and> ((\<exists>e. http env (hotels_call key d ci co) = Inl e
               \<or> (\<exists>body. http env (hotels_call key d ci co) = Inr body
                          \<and> hotels_of_results body = Inl e))
              \<longrightarrow> fst (fetch_hotels env d ci co) = [])
         \<and> snd (fetch_restaurants env d) = [restaurants_call key d]
         \<and> ((\<exists>e. http env (restaurants_call key d) = Inl e
               \<or> (\<exists>body. http env (restaurants_call key d) = Inr body
                          \<and> restaurants_of_results body = Inl e))
              \<longrightarrow> fst (fetch_restaurants env d) = []))
   \<and> (MAPBOX_ACCESS_TOKEN env = Some token \<and> token \<noteq> [] \<longrightarrow>
         snd (geocode_destination env d) = [Mapbox d token]
         \<and> ((\<exists>e. http env (Mapbox d token) = Inl e
               \<or> (\<exists>body. http env (Mapbox d token) = Inr body
                          \<and> coordinates_of_body env body = Inl e))
              \<longrightarrow> fst (geocode_destination env d) = (None, None)))
   \<and> (WEATHER_API_KEY env = Some wkey \<and> wkey \<noteq> [] \<longrightarrow>
         snd (fetch_weather env (Some x) (Some y)) = [OpenWeather x y wkey]
         \<and> ((\<exists>e. http env (OpenWeather x y wkey) = Inl e
               \<or> (\<exists>body. http env (OpenWeather x y wkey) = Inr body
                          \<and> weather_of_body env body = Inl e))
              \<longrightarrow> fst (fetch_weather env (Some x) (Some y)) = None))"
proof -
  have ev: "unset (SERPAPI_API_KEY env) \<longrightarrow> fetch_google_events env d = ([], [])"
    by (auto simp: unset_def fetch_google_events_def)
  have ho: "unset (SERPAPI_API_KEY env) \<longrightarrow> fetch_hotels env d ci co = ([], [])"
    by (auto simp: unset_def fetch_hotels_def)
  have re: "unset (SERPAPI_API_KEY env) \<longrightarrow> fetch_restaurants env d = ([], [])"
    by (auto simp: unset_def fetch_restaurants_def)
  have ge: "unset (MAPBOX_ACCESS_TOKEN env) \<longrightarrow> geocode_destination env d = ((None, None), [])"
    by (auto simp: unset_def geocode_destination_def)
  have we: "unset (WEATHER_API_KEY env) \<longrightarrow> fetch_weather env la lo = (None, [])"
    by (auto simp: unset_def fetch_weather_def split: option.splits)
  have ev': "SERPAPI_API_KEY env = Some key \<and> key \<noteq> [] \<longrightarrow>
         snd (fetch_google_events env d) = [events_call key d]
         \<and> ((\<exists>e. http env (events_call key d) = Inl e
               \<or> (\<exists>body. http env (events_call key d) = Inr body
                          \<and> events_of_results body = Inl e))
              \<longrightarrow> fst (fetch_google_events env d) = [])"
    by (auto simp: fetch_google_events_def andthen_def)
  have ho': "SERPAPI_API_KEY env = Some key \<and> key \<noteq> [] \<longrightarrow>
         snd (fetch_hotels env d ci co) = [hotels_call key d ci co]
         \<and> ((\<exists>e. http env (hotels_call key d ci co) = Inl e
               \<or> (\<exists>body. http env (hotels_call key d ci co) = Inr body
                          \<and> hotels_of_results body = Inl e))
              \<longrightarrow> fst (fetch_hotels env d ci co) = [])"
    by (auto simp: fetch_hotels_def andthen_def)
  have re': "SERPAPI_API_KEY env = Some key \<and> key \<noteq> [] \<longrightarrow>
         snd (fetch_restaurants env d) = [restaurants_call key d]
         \<and> ((\<exists>e. http env (restaurants_call key d) = Inl e
               \<or> (\<exists>body. http env (restaurants_call key d) = Inr body
                          \<and> restaurants_of_results body = Inl e))
              \<longrightarrow> fst (fetch_restaurants env d) = [])"
    by (auto simp: fetch_restaurants_def andthen_def)
  have ge': "MAPBOX_ACCESS_TOKEN env = Some token \<and> token \<noteq> [] \<longrightarrow>
         snd (geocode_destination env d) = [Mapbox d token]
         \<and> ((\<exists>e. http env (Mapbox d token) = Inl e
               \<or> (\<exists>body. http env (Mapbox d token) = Inr body
                          \<and> coordinates_of_body env body = Inl e))
              \<longrightarrow> fst (geocode_destination env d) = (None, None))"
    by (auto simp: geocode_destination_def andthen_def)
  have we': "WEATHER_API_KEY env = Some wkey \<and> wkey \<noteq> [] \<longrightarrow>
         snd (fetch_weather env (Some x) (Some y)) = [OpenWeather x y wkey]
         \<and> ((\<exists>e. http env (OpenWeather x y wkey) = Inl e
               \<or> (\<exists>body. http env (OpenWeather x y wkey) = Inr body
                          \<and> weather_of_body env body = Inl e))
              \<longrightarrow> fst (fetch_weather env (Some x) (Some y)) = None)"
    by (auto simp: fetch_weather_def andthen_def)
  from ev ho re ge we ev' ho' re' ge' we' show ?thesis by blast
qed

theorem adapters_degrade_witness:
  "fetch_google_events offline ''Kyoto'' = ([], [])
   \<and> fetch_hotels offline ''Kyoto'' None None = ([], [])
   \<and> fetch_restaurants offline ''Kyoto'' = ([], [])
   \<and> geocode_destination offline ''Kyoto'' = ((None, None), [])
   \<and> fetch_weather offline (Some (Finite 35)) (Some (Finite 135)) = (None, [])
   \<and> fetch_google_events network_down ''Kyoto'' = ([], [events_call ''key'' ''Kyoto''])
   \<and> fetch_hotels network_down ''Kyoto'' None None
       = ([], [hotels_call ''key'' ''Kyoto'' None None])
   \<and> fetch_restaurants network_down ''Kyoto'' = ([], [restaurants_call ''key'' ''Kyoto''])
   \<and> geocode_destination network_down ''Kyoto'' = ((None, None), [Mapbox ''Kyoto'' ''token''])
   \<and> fetch_weather network_down (Some (Finite 35)) (Some (Finite 135))
       = (None, [OpenWeather (Finite 35) (Finite 135) ''key''])
   \<and> fetch_google_events malformed_bodies ''Kyoto'' = ([], [events_call ''key'' ''Kyoto''])
   \<and> fetch_hotels malformed_bodies ''Kyoto'' None None
       = ([], [hotels_call ''key'' ''Kyoto'' None None])
   \<and> fetch_restaurants malformed_bodies ''Kyoto''
       = ([], [restaurants_call ''key'' ''Kyoto''])
   \<and> geocode_destination malformed_bodies ''Kyoto''
       = ((None, None), [Mapbox ''Kyoto'' ''token''])
   \<and> fetch_weather malformed_bodies (Some (Finite 35)) (Some (Finite 135))
       = (None, [OpenWeather (Finite 35) (Finite 135) ''key''])"
proof -
  have u: "unset (SERPAPI_API_KEY offline)" "unset (MAPBOX_ACCESS_TOKEN offline)"
          "unset (WEATHER_API_KEY offline)"
    by (simp_all add: offline_def unset_def)
  have k: "SERPAPI_API_KEY network_down = Some ''key''"
          "MAPBOX_ACCESS_TOKEN network_down = Some ''token''"
          "WEATHER_API_KEY network_down = Some ''key''"
          "SERPAPI_API_KEY malformed_bodies = Some ''key''"
          "MAPBOX_ACCESS_TOKEN malformed_bodies = Some ''token''"
          "WEATHER_API_KEY malformed_bodies = Some ''key''"
    by (simp_all add: malformed_bodies_def network_down_def)
  have n: "http network_down call = Inl ConnectionError" for call
    by (simp add: network_down_def offline_def)
  have m: "http malformed_bodies call = Inr (JArr [JInt 1])" for call
    by (simp add: malformed_bodies_def)
  have b: "events_of_results (JArr [JInt 1]) = Inl AttributeError"
          "hotels_of_results (JArr [JInt 1]) = Inl AttributeError"
          "restaurants_of_results (JArr [JInt 1]) = Inl AttributeError"
          "coordinates_of_body malformed_bodies (JArr [JInt 1]) = Inl AttributeError"
          "weather_of_body malformed_bodies (JArr [JInt 1]) = Inl AttributeError"
    by (simp_all add: andthen_def events_of_results_def hotels_of_results_def
          restaurants_of_results_def coordinates_of_body_def weather_of_body_def)
  from adapters_degrade [where env = offline and d = "''Kyoto''" and ci = None and co = None
         and la = "Some (Finite 35)" and lo = "Some (Finite 135)"] u
  have 1: "fetch_google_events offline ''Kyoto'' = ([], [])
     \<and> fetch_hotels offline ''Kyoto'' None None = ([], [])
     \<and> fetch_restaurants offline ''Kyoto'' = ([], [])
     \<and> geocode_destination offline ''Kyoto'' = ((None, None), [])
     \<and> fetch_weather offline (Some (Finite 35)) (Some (Finite 135)) = (None, [])"
    by simp
  from adapters_degrade [where env = network_down and d = "''Kyoto''" and ci = None
         and co = None and key = "''key''" and token = "''token''" and wkey = "''key''"
         and x = "Finite 35" and y = "Finite 135"] k n
  have 2: "fetch_google_events network_down ''Kyoto'' = ([], [events_call ''key'' ''Kyoto''])
     \<and> fetch_hotels network_down ''Kyoto'' None None
         = ([], [hotels_call ''key'' ''Kyoto'' None None])
     \<and> fetch_restaurants network_down ''Kyoto'' = ([], [restaurants_call ''key'' ''Kyoto''])
     \<and> geocode_destination network_down ''Kyoto''
         = ((None, None), [Mapbox ''Kyoto'' ''token''])
     \<and> fetch_weather network_down (Some (Finite 35)) (Some (Finite 135))
         = (None, [OpenWeather (Finite 35) (Finite 135) ''key''])"
    by (simp add: prod_eq_iff)
  from adapters_degrade [where env = malformed_bodies and d = "''Kyoto''" and ci = None
         and co = None and key = "''key''" and token = "''token''" and wkey = "''key''"
         and x = "Finite 35" and y = "Finite 135"] k m b
  have 3: "fetch_google_events malformed_bodies ''Kyoto''
         = ([], [events_call ''key'' ''Kyoto''])
     \<and> fetch_hotels malformed_bodies ''Kyoto'' None None
         = ([], [hotels_call ''key'' ''Kyoto'' None None])
     \<and> fetch_restaurants malformed_bodies ''Kyoto''
         = ([], [restaurants_call ''key'' ''Kyoto''])
     \<and> geocode_destination malformed_bodies ''Kyoto''
         = ((None, None), [Mapbox ''Kyoto'' ''token''])
     \<and> fetch_weather malformed_bodies (Some (Finite 35)) (Some (Finite 135))
         = (None, [OpenWeather (Finite 35) (Finite 135) ''key''])"
    by (simp add: prod_eq_iff)
  from 1 2 3 show ?thesis by simp
qed

section \<open>Properties of the storage round trip\<close>

lemma split_no_sep: "c \<notin> set x \<Longrightarrow> split c x = [x]"
  by (induction x) auto

lemma split_append: "c \<notin> set x \<Longrightarrow> split c (x @ c # ys) = x # split c ys"
  by (induction x) auto

lemma split_join:
  "(\<forall>x \<in> set xs. c \<notin> set x) \<Longrightarrow> xs \<noteq> [] \<Longrightarrow> split c (join [c] xs) = xs"
proof (induction "[c]" xs rule: join.induct)
  case 1
  then show ?case by simp
next
  case (2 x)
  then show ?case by (simp add: split_no_sep)
next
  case (3 x y ys)
  then show ?case by (simp add: split_append)
qed

lemma join_empty_iff: "join [c] xs = [] \<longleftrightarrow> xs = [] \<or> xs = [[]]"
  by (induction "[c]" xs rule: join.induct) auto

lemma lines_roundtrip: "newline_free xs \<Longrightarrow> lines_or_empty (join [CHR 0x0A] xs) = xs"
  by (auto simp: newline_free_def lines_or_empty_def join_empty_iff split_join)

lemma fold_max_ge: "m \<le> fold (\<lambda>i m. case i of None \<Rightarrow> m | Some k \<Rightarrow> max k m) ids (m::int)"
proof (induction ids arbitrary: m)
  case Nil
  then show ?case by simp
next
  case (Cons i ids)
  show ?case
  proof (cases i)
    case None
    then show ?thesis using Cons.IH [of m] by simp
  next
    case (Some k)
    then show ?thesis using Cons.IH [of "max k m"] by simp
  qed
qed

lemma fold_max_member:
  "Some k \<in> set ids \<Longrightarrow> k \<le> fold (\<lambda>i m. case i of None \<Rightarrow> m | Some k \<Rightarrow> max k m) ids (m::int)"
proof (induction ids arbitrary: m)
  case Nil
  then show ?case by simp
next
  case (Cons i ids)
  show ?case
  proof (cases "i = Some k")
    case True
    then show ?thesis using fold_max_ge [of "max k m" ids] by simp
  next
    case False
    with Cons.prems have "Some k \<in> set ids" by simp
    then show ?thesis using Cons.IH by (cases i) simp_all
  qed
qed

lemma fresh_id_new: "Some k \<in> set ids \<Longrightarrow> k < fresh_id ids"
  using fold_max_member [of k ids 0] by (simp add: fresh_id_def)


lemma number_days_fields:
  "map (\<lambda>d. (trip_id d, day_number d, Day.title d, Day.summary d, Day.places d))
       (number_days k ds)
   = map (\<lambda>d. (trip_id d, day_number d, Day.title d, Day.summary d, Day.places d)) ds"
  by (induction k ds rule: number_days.induct) simp_all

lemma number_days_trip_id:
  "d \<in> set (number_days k (map (db_day tid) ds)) \<Longrightarrow> trip_id d = tid"
  by (induction ds arbitrary: k) (auto simp: db_day_def)

lemma number_days_day_number:
  "map day_number (number_days k (map (db_day tid) ds)) = map day ds"
  by (induction ds arbitrary: k) (auto simp: db_day_def)

lemma number_days_plan:
  assumes "\<forall>d \<in> set ds. newline_free (DayPlan.places d)"
  shows "map (\<lambda>d. \<lparr> day = day_number d, title = Day.title d, summary = Day.summary d,
                    places = lines_or_empty (Day.places d) \<rparr>)
             (number_days k (map (db_day tid) ds)) = ds"
  using assms by (induction ds arbitrary: k) (auto simp: db_day_def lines_roundtrip)

lemma rows_of_new_trip:
  assumes "store_consistent st"
      and "tid = fresh_id (map Trip.id (trips st))"
      and "sorted_wrt (<) (map day ds)"
  shows "sort_key day_number
           (filter (\<lambda>d. trip_id d = tid)
              (day_rows st @ number_days k (map (db_day tid) ds)))
         = number_days k (map (db_day tid) ds)"
proof -
  have old: "filter (\<lambda>d. trip_id d = tid) (day_rows st) = []"
  proof -
    have "trip_id d \<noteq> tid" if "d \<in> set (day_rows st)" for d
    proof -
      from assms(1) that obtain t where "t \<in> set (trips st)" "Trip.id t = Some (trip_id d)"
        by (auto simp: store_consistent_def)
      then have "Some (trip_id d) \<in> set (map Trip.id (trips st))" by force
      then have "trip_id d < tid" using assms(2) fresh_id_new by simp
      then show ?thesis by simp
    qed
    then show ?thesis by (simp add: filter_empty_conv)
  qed
  have new: "filter (\<lambda>d. trip_id d = tid) (number_days k (map (db_day tid) ds))
               = number_days k (map (db_day tid) ds)"
    using number_days_trip_id by (simp add: filter_id_conv)
  have "sorted_wrt (\<lambda>x y. day x \<le> day y) ds"
    using assms(3) unfolding sorted_wrt_map
    by (rule sorted_wrt_mono_rel [rotated]) simp
  then have "sorted (map day ds)"
    by (simp add: sorted_wrt_map)
  then have "sorted (map day_number (number_days k (map (db_day tid) ds)))"
    by (simp add: number_days_day_number)
  then show ?thesis using old new by (simp add: sort_key_id_if_sorted)
qed

lemma find_append_cases:
  "find P (xs @ ys) = (case find P xs of None \<Rightarrow> find P ys | Some x \<Rightarrow> Some x)"
  by (induction xs) simp_all

lemma find_new_trip:
  assumes "tid = fresh_id (map Trip.id (trips st))"
  shows "find (\<lambda>t. Trip.id t = Some tid) (trips st @ [row\<lparr>Trip.id := Some tid\<rparr>])
           = Some (row\<lparr>Trip.id := Some tid\<rparr>)"
proof -
  have "Trip.id t \<noteq> Some tid" if "t \<in> set (trips st)" for t
  proof
    assume "Trip.id t = Some tid"
    with that have "Some tid \<in> set (map Trip.id (trips st))" by force
    then have "tid < fresh_id (map Trip.id (trips st))" by (rule fresh_id_new)
    with assms show False by simp
  qed
  then have "find (\<lambda>t. Trip.id t = Some tid) (trips st) = None"
    by (simp add: find_None_iff)
  then show ?thesis by (simp add: find_append_cases)
qed

lemma get_trip_after_save:
  assumes saved: "save_trip env st (db_trip_of (Some u) rq n plan0 None) plan0 = (Inr plan, st')"
      and cons: "store_consistent st"
      and tips: "newline_free (TripPlan.tips plan0)"
      and places: "\<forall>d \<in> set (daily_plan plan0). newline_free (DayPlan.places d)"
      and sorted: "sorted_wrt (<) (map day (daily_plan plan0))"
      and nobb: "TripPlan.budget_breakdown plan0 = None"
  shows "\<exists>tid. TripPlan.id plan = Some tid
           \<and> get_trip st' tid u
               = Inr (plan\<lparr>events := None, hotels := None, restaurants := None\<rparr>)"
proof -
  define tid where "tid = fresh_id (map Trip.id (trips st))"
  define k where "k = fresh_id (map Day.id (day_rows st))"
  from saved have ok: "commit_succeeds env 0" "commit_succeeds env 1"
    by (auto simp: save_trip_cases Let_def split: if_splits)
  from saved ok have plan: "plan = plan0\<lparr>TripPlan.id := Some tid\<rparr>"
    and st': "st' = \<lparr> trips = trips st @ [(db_trip_of (Some u) rq n plan0 None)\<lparr>Trip.id := Some tid\<rparr>],
                      day_rows = day_rows st @ number_days k (map (db_day tid) (daily_plan plan0)) \<rparr>"
    by (simp_all add: save_trip_ok Let_def tid_def k_def)
  have f: "find (\<lambda>t. Trip.id t = Some tid) (trips st')
             = Some ((db_trip_of (Some u) rq n plan0 None)\<lparr>Trip.id := Some tid\<rparr>)"
    using find_new_trip [OF tid_def] by (simp add: st')
  have r: "sort_key day_number (filter (\<lambda>d. trip_id d = tid) (day_rows st'))
             = number_days k (map (db_day tid) (daily_plan plan0))"
    using rows_of_new_trip [OF cons tid_def sorted] by (simp add: st')
  have "get_trip st' tid u
          = Inr (plan\<lparr>events := None, hotels := None, restaurants := None\<rparr>)"
    unfolding get_trip_def f r
    using number_days_plan [OF places, of k tid] lines_roundtrip [OF tips] nobb
    by (cases plan0) (simp add: db_trip_of_def plan Let_def)
  moreover have "TripPlan.id plan = Some tid" by (simp add: plan)
  ultimately show ?thesis by blast
qed

lemma dummy_saved:
  assumes "create_and_save_dummy_trip env st r = (Inr plan, st')"
  shows "\<exists>plan0 n bb.
           save_trip env st (db_trip_of (TripRequest.user_id r) r n plan0 bb) plan0
             = (Inr plan, st')
           \<and> (TripPlan.budget_breakdown plan0 = None \<longrightarrow> bb = None)"
  using assms unfolding create_and_save_dummy_trip_def
  by (auto simp: Let_def split_beta split: sum.splits)

lemma enrich_saved:
  assumes "enrich_and_save env st r data = (Inr plan, st')"
  shows "\<exists>plan0 n bb.
           save_trip env st (db_trip_of (TripRequest.user_id r) r n plan0 bb) plan0
             = (Inr plan, st')
           \<and> (TripPlan.budget_breakdown plan0 = None \<longrightarrow> bb = None)"
  using assms unfolding enrich_and_save_def
  by (fastforce simp: Let_def split_beta split: sum.splits)

lemma plan_trip_saved:
  assumes "plan_trip env st u r = (Inr plan, st')"
  shows "\<exists>plan0 n bb.
           save_trip env st
             (db_trip_of (Some u) (r\<lparr>TripRequest.user_id := Some u\<rparr>) n plan0 bb) plan0
             = (Inr plan, st')
           \<and> (TripPlan.budget_breakdown plan0 = None \<longrightarrow> bb = None)"
proof -
  let ?r = "r\<lparr>TripRequest.user_id := Some u\<rparr>"
  have "create_and_save_dummy_trip env st ?r = (Inr plan, st')
        \<or> (\<exists>data. enrich_and_save env st ?r data = (Inr plan, st'))"
    using assms unfolding plan_trip_def Let_def
    by (auto split: if_splits gen_outcome.splits sum.splits)
  then show ?thesis
    using dummy_saved [of env st ?r plan st'] enrich_saved [of env st ?r _ plan st']
    by auto
qed

lemma save_trip_keeps_plan:
  assumes "save_trip env st row plan0 = (Inr plan, st')"
  shows "\<exists>tid. plan = plan0\<lparr>TripPlan.id := Some tid\<rparr>"
  using assms by (auto simp: save_trip_cases Let_def split: if_splits)

lemma plan_trip_unconfigured_plan:
  assumes "unset (GEMINI_API_KEY env)" and "plan_trip env st u r = (Inr plan, st')"
  shows "TripPlan.tips plan =
           [''Set GEMINI_API_KEY in your backend environment.'',
            ''Optionally set GEMINI_MODEL (e.g. gemini-3-flash-preview).'',
            ''Restart the FastAPI server after setting the vars.'']
         \<and> daily_plan plan
             = map (sample_day (TripRequest.destination r)) [0..<nat (TripRequest.days r)]
         \<and> TripPlan.budget_breakdown plan = None"
  using assms
  by (auto simp: plan_trip_unconfigured create_and_save_dummy_trip_def save_trip_cases
        Let_def split_beta split: sum.splits if_splits)

text \<open>
  C3, as stated, fails: a tip that holds a newline is stored in the
  newline-joined column and comes back as two tips.
\<close>

theorem get_trip_splits_tip:
  "map_sum (\<lambda>e. e) TripPlan.tips
     (fst (plan_trip newline_in_tip empty_store ''alice'' paris_request))
     = Inr [''Book ahead\<newline>Carry water'']
   \<and> map_sum (\<lambda>e. e) TripPlan.tips
       (get_trip (snd (plan_trip newline_in_tip empty_store ''alice'' paris_request))
          1 ''alice'')
     = Inr [''Book ahead'', ''Carry water'']"
  by code_simp

text \<open>
  C3, amended. Let \<open>plan_trip\<close> return a plan, written to consistent rows, in
  which no tip and no place holds a newline, neither list is the one-element
  list of the empty string, the day numbers increase strictly, and there is no
  budget breakdown. Then \<open>get_trip\<close> with the plan's id, for the same user,
  returns that plan field for field, with the three enrichment fields absent.
\<close>

theorem get_trip_after_plan_trip:
  assumes "plan_trip env st u r = (Inr plan, st')"
      and "store_consistent st"
      and "newline_free (TripPlan.tips plan)"
      and "\<forall>d \<in> set (daily_plan plan). newline_free (DayPlan.places d)"
      and "sorted_wrt (<) (map day (daily_plan plan))"
      and "TripPlan.budget_breakdown plan = None"
  shows "\<exists>tid. TripPlan.id plan = Some tid
           \<and> get_trip st' tid u
               = Inr (plan\<lparr>events := None, hotels := None, restaurants := None\<rparr>)"
proof -
  from plan_trip_saved [OF assms(1)] obtain plan0 n bb where
    saved: "save_trip env st
              (db_trip_of (Some u) (r\<lparr>TripRequest.user_id := Some u\<rparr>) n plan0 bb) plan0
              = (Inr plan, st')"
    and bb: "TripPlan.budget_breakdown plan0 = None \<longrightarrow> bb = None"
    by (elim exE conjE)
  from save_trip_keeps_plan [OF saved] obtain tid where
    plan: "plan = plan0\<lparr>TripPlan.id := Some tid\<rparr>" by blast
  from plan assms(6) bb have "bb = None" by simp
  with saved have s0:
    "save_trip env st
       (db_trip_of (Some u) (r\<lparr>TripRequest.user_id := Some u\<rparr>) n plan0 None) plan0
       = (Inr plan, st')" by simp
  have c: "newline_free (TripPlan.tips plan0)"
    "\<forall>d \<in> set (daily_plan plan0). newline_free (DayPlan.places d)"
    "sorted_wrt (<) (map day (daily_plan plan0))"
    "TripPlan.budget_breakdown plan0 = None"
    using assms(3-6) plan by simp_all
  show ?thesis
    by (rule get_trip_after_save [OF s0 assms(2) c])
qed

theorem get_trip_after_plan_trip_witness:
  "\<exists>plan st' tid.
      plan_trip offline empty_store ''alice'' kyoto_request = (Inr plan, st')
      \<and> TripPlan.id plan = Some tid
      \<and> get_trip st' tid ''alice''
          = Inr (plan\<lparr>events := None, hotels := None, restaurants := None\<rparr>)"
proof -
  have u: "unset (GEMINI_API_KEY offline)"
    and "commit_succeeds offline 0" "commit_succeeds offline 1"
    by (simp_all add: offline_def unset_def)
  then obtain plan st' where
    p: "plan_trip offline empty_store ''alice'' kyoto_request = (Inr plan, st')"
    using plan_trip_unconfigured_returns [OF _ _ _ kyoto_estimate] by blast
  note f = plan_trip_unconfigured_plan [OF u p]
  have c: "store_consistent empty_store"
    by (simp add: store_consistent_def empty_store_def)
  have t: "newline_free (TripPlan.tips plan)"
    using f by (simp add: newline_free_def)
  have "\<forall>d \<in> set (map (sample_day (TripRequest.destination kyoto_request))
                      [0..<nat (TripRequest.days kyoto_request)]).
          newline_free (DayPlan.places d)"
    by code_simp
  then have d: "\<forall>d \<in> set (daily_plan plan). newline_free (DayPlan.places d)"
    using f by simp
  have "sorted_wrt (<) (map day (map (sample_day (TripRequest.destination kyoto_request))
                      [0..<nat (TripRequest.days kyoto_request)]))"
    by code_simp
  then have s: "sorted_wrt (<) (map day (daily_plan plan))"
    using f by simp
  have b: "TripPlan.budget_breakdown plan = None"
    using f by simp
  from get_trip_after_plan_trip [OF p c t d s b] p show ?thesis by blast
qed

section \<open>Properties of the conversational path\<close>

lemma map_of_setitem: "map_of (setitem k v kvs) k' = (if k' = k then Some v else map_of kvs k')"
  by (simp add: setitem_def update_conv)

lemma bind_eq_Some: "Option.bind x f = Some y \<longleftrightarrow> (\<exists>a. x = Some a \<and> f a = Some y)"
  by (cases x) simp_all

lemma TripPlan_fields_budget:
  assumes "TripPlan_fields env kvs = Some p"
  shows "optional kvs ''estimated_total_budget'' (validate_float env)
           = Some (TripPlan.estimated_total_budget p)"
    and "optional kvs ''estimated_per_person'' (validate_float env)
           = Some (TripPlan.estimated_per_person p)"
  using assms unfolding TripPlan_fields_def bind_eq_Some
  by auto

lemma optional_float: "map_of kvs k = Some (JFloat f) \<Longrightarrow> optional kvs k (validate_float env) = Some (Some f)"
  by (simp add: optional_def validate_float_def)

lemma validated_budget:
  assumes "TripPlan_validate env
             (setitem ''weather_summary'' w
             (setitem ''lng'' lo
             (setitem ''lat'' la
             (setitem ''estimated_per_person'' (JFloat per_person)
             (setitem ''estimated_total_budget'' (JFloat tot) kvs))))) = Inr p"
  shows "TripPlan.estimated_total_budget p = Some tot
         \<and> TripPlan.estimated_per_person p = Some per_person"
proof -
  let ?kvs = "setitem ''weather_summary'' w
             (setitem ''lng'' lo
             (setitem ''lat'' la
             (setitem ''estimated_per_person'' (JFloat per_person)
             (setitem ''estimated_total_budget'' (JFloat tot) kvs))))"
  from assms have f: "TripPlan_fields env ?kvs = Some p"
    by (simp add: TripPlan_validate_def split: option.splits)
  have "map_of ?kvs ''estimated_total_budget'' = Some (JFloat tot)"
    and "map_of ?kvs ''estimated_per_person'' = Some (JFloat per_person)"
    by (simp_all add: map_of_setitem)
  then have "optional ?kvs ''estimated_total_budget'' (validate_float env) = Some (Some tot)"
    and "optional ?kvs ''estimated_per_person'' (validate_float env) = Some (Some per_person)"
    by (simp_all only: optional_float)
  with TripPlan_fields_budget [OF f] show ?thesis by simp
qed

lemma request_defaults:
  assumes "map_of params ''travelers'' = None" and "map_of params ''budget_level'' = None"
      and "request_of_params env username (JObj params) = Inr req"
  shows "TripRequest.travelers req = Some 1 \<and> TripRequest.budget_level req = Some ''medium''"
  using assms unfolding request_of_params_def
  by (auto simp: andthen_def optional_value_def validate_int_def validate_str_def
           split: option.splits)

lemma chat_generate_and_save_plan:
  assumes "chat_generate_and_save env st username req = (Inr (PlanReady msg plan), st')"
      and "TripRequest.travelers req = Some n"
  shows "\<exists>row tot per_person.
           trips st' = trips st @ [row] \<and> Trip.travelers row = n
           \<and> estimate_budget (TripRequest.days req) n (fstr_opt_str (TripRequest.budget_level req))
               = Inr (tot, per_person)
           \<and> TripPlan.estimated_total_budget plan = Some tot
           \<and> TripPlan.estimated_per_person plan = Some per_person"
  using assms unfolding chat_generate_and_save_def
  by (auto simp: Let_def split_beta save_trip_cases db_trip_of_def
           dest!: validated_budget
           split: sum.splits gen_outcome.splits option.splits if_splits prod.splits)

lemma analysis_eager:
  "analyze_chat_intent eager_resolver ''One day in Paris, from Rome'' []
     = JObj [(''action'', JStr ''plan_ready''),
             (''params'', JObj [(''origin'', JStr ''Rome''), (''destination'', JStr ''Paris''),
                                (''days'', JInt 1)])]"
  by code_simp

lemma eager_chat_plans:
  "case chat_interaction eager_resolver empty_store ''alice'' ''One day in Paris, from Rome'' [] of
     (Inr (PlanReady msg plan), st') \<Rightarrow> True
   | _ \<Rightarrow> False"
  by code_simp

text \<open>
  C8, as stated, fails: \<open>chat_interaction\<close> does not look at what the user
  supplied. With a provider that answers the intent prompt for the message
  "One day in Paris, from Rome" with \<^verbatim>\<open>plan_ready\<close> and parameters naming
  origin, destination and days only, a plan is generated and persisted with 1
  traveler, budget level "medium" and the budget of one traveler at the medium
  rate.
\<close>

theorem chat_defaults_unasked_slots:
  "case chat_interaction eager_resolver empty_store ''alice'' ''One day in Paris, from Rome'' [] of
     (Inr (PlanReady msg plan), st') \<Rightarrow>
        map Trip.travelers (trips st') = [1]
        \<and> map Trip.budget_level (trips st') = [''medium'']
        \<and> TripPlan.budget_level plan = ''medium''
        \<and> TripPlan.estimated_total_budget plan = Some (Finite 80)
   | _ \<Rightarrow> False"
  by code_simp

text \<open>
  C8, amended. Whether a turn continues or plans is decided by the reply of the
  understanding provider alone. When that reply is \<^verbatim>\<open>plan_ready\<close> with
  parameters that name neither travelers nor budget level, and a plan is
  returned, then the request was built with 1 traveler and level "medium", the
  Trip row appended for the plan has 1 traveler, and the plan's budget figures
  are those of one traveler at the "medium" rate.
\<close>

theorem chat_interaction_defaults:
  assumes "analyze_chat_intent env message history = JObj analysis"
      and "map_of analysis ''action'' = Some (JStr ''plan_ready'')"
      and "map_of analysis ''params'' = Some (JObj params)"
      and "map_of params ''travelers'' = None"
      and "map_of params ''budget_level'' = None"
      and "chat_interaction env st username message history = (Inr (PlanReady msg plan), st')"
  shows "\<exists>req row tot per_person.
           request_of_params env username (JObj params) = Inr req
           \<and> TripRequest.travelers req = Some 1
           \<and> TripRequest.budget_level req = Some ''medium''
           \<and> trips st' = trips st @ [row] \<and> Trip.travelers row = 1
           \<and> estimate_budget (TripRequest.days req) 1 ''medium'' = Inr (tot, per_person)
           \<and> TripPlan.estimated_total_budget plan = Some tot
           \<and> TripPlan.estimated_per_person plan = Some per_person"
proof -
  from assms(1,2,3,6) obtain req where
    req: "request_of_params env username (JObj params) = Inr req"
    and gen: "chat_generate_and_save env st username req = (Inr (PlanReady msg plan), st')"
    unfolding chat_interaction_def
    by (auto simp: Let_def andthen_def split: sum.splits if_splits)
  from request_defaults [OF assms(4,5) req] have
    d: "TripRequest.travelers req = Some 1" "TripRequest.budget_level req = Some ''medium''"
    by simp_all
  from chat_generate_and_save_plan [OF gen d(1)] d req show ?thesis
    by (simp add: fstr_opt_str_def)
qed

theorem chat_interaction_defaults_witness:
  "\<exists>msg plan st' req row tot per_person.
      chat_interaction eager_resolver empty_store ''alice'' ''One day in Paris, from Rome'' []
        = (Inr (PlanReady msg plan), st')
      \<and> request_of_params eager_resolver ''alice''
            (JObj [(''origin'', JStr ''Rome''), (''destination'', JStr ''Paris''),
                   (''days'', JInt 1)]) = Inr req
      \<and> TripRequest.travelers req = Some 1
      \<and> TripRequest.budget_level req = Some ''medium''
      \<and> trips st' = trips empty_store @ [row] \<and> Trip.travelers row = 1
      \<and> estimate_budget (TripRequest.days req) 1 ''medium'' = Inr (tot, per_person)
      \<and> TripPlan.estimated_total_budget plan = Some tot
      \<and> TripPlan.estimated_per_person plan = Some per_person"
proof -
  from eager_chat_plans obtain msg plan st' where
    c: "chat_interaction eager_resolver empty_store ''alice'' ''One day in Paris, from Rome'' []
          = (Inr (PlanReady msg plan), st')"
    by (auto split: prod.splits sum.splits chat_reply.splits)
  from chat_interaction_defaults [OF analysis_eager _ _ _ _ c] c show ?thesis
    by simp
qed

end
